theory Spec2Isabelle
  imports Main "HOL-Library.Word" "HOL-Library.Sublist"
begin

section \<open>JavaScript strings\<close>

text \<open>
  A JavaScript string is a sequence of 16-bit code units; \<open>length\<close> counts code units,
  as \<open>String.prototype.length\<close> does. \<open>js\<close> writes the code units of an ASCII literal
  of the scripts.
\<close>

type_synonym jschar = "16 word"
type_synonym jsstring = "jschar list"

definition js :: "string \<Rightarrow> jsstring" where
  "js s = map (\<lambda>c. of_nat (of_char c)) s"

text \<open>
  The character classes the scripts rely on: \<open>[a-zA-Z]\<close>, the line terminators (what
  \<open>.\<close> of a regular expression does not match) and the white space of \<open>\s\<close> and of
  \<open>String.prototype.trim\<close> (WhiteSpace and LineTerminator of ECMAScript).
\<close>

definition is_ascii_letter :: "jschar \<Rightarrow> bool" where
  "is_ascii_letter c = ((0x41 \<le> c \<and> c \<le> 0x5A) \<or> (0x61 \<le> c \<and> c \<le> 0x7A))"

definition is_digit :: "jschar \<Rightarrow> bool" where
  "is_digit c = (0x30 \<le> c \<and> c \<le> 0x39)"

definition is_line_terminator :: "jschar \<Rightarrow> bool" where
  "is_line_terminator c = (c = 0x0A \<or> c = 0x0D \<or> c = 0x2028 \<or> c = 0x2029)"

definition is_white_space :: "jschar \<Rightarrow> bool" where
  "is_white_space c =
     (c = 0x09 \<or> c = 0x0B \<or> c = 0x0C \<or> c = 0x20 \<or> c = 0xA0 \<or> c = 0x1680
      \<or> (0x2000 \<le> c \<and> c \<le> 0x200A) \<or> c = 0x202F \<or> c = 0x205F \<or> c = 0x3000
      \<or> c = 0xFEFF \<or> is_line_terminator c)"

definition not_line_terminator :: "jschar \<Rightarrow> bool" where
  "not_line_terminator c = (\<not> is_line_terminator c)"

definition trim :: "jsstring \<Rightarrow> jsstring" where
  "trim s = rev (dropWhile is_white_space (rev (dropWhile is_white_space s)))"

section \<open>Errors thrown by the host functions\<close>

text \<open>
  \<open>URIError\<close> is thrown by \<open>encodeURIComponent\<close>; \<open>SyntaxError\<close> by \<open>JSON.parse\<close>,
  with the text it was given; the two \<open>TypeError\<close>s the scripts can meet are an invalid
  URL given to \<open>new URL\<close> (\<open>InvalidURL\<close>, with the URL) and a property read from
  \<open>undefined\<close> (\<open>ReadOfUndefined\<close>, with the property's name). The message an engine
  prints for an error is its own: it is a parameter wherever a script prints one.
\<close>

datatype js_error = URIError | SyntaxError jsstring | InvalidURL jsstring | ReadOfUndefined jsstring

section \<open>encodeURIComponent\<close>

text \<open>
  ECMAScript's \<open>Encode\<close> with the unreserved set of \<open>encodeURIComponent\<close>: letters,
  digits and \<open>- _ . ! ~ * ' ( )\<close> are kept; every other code point is written as the
  percent-escaped octets of its UTF-8 form; a surrogate that is not part of a pair throws
  \<open>URIError\<close>.
\<close>

definition uri_unescaped :: "jschar \<Rightarrow> bool" where
  "uri_unescaped c =
     (is_ascii_letter c \<or> is_digit c \<or> c = 0x2D \<or> c = 0x5F \<or> c = 0x2E \<or> c = 0x21
      \<or> c = 0x7E \<or> c = 0x2A \<or> c = 0x27 \<or> c = 0x28 \<or> c = 0x29)"

definition is_leading_surrogate :: "jschar \<Rightarrow> bool" where
  "is_leading_surrogate c = (0xD800 \<le> c \<and> c \<le> 0xDBFF)"

definition is_trailing_surrogate :: "jschar \<Rightarrow> bool" where
  "is_trailing_surrogate c = (0xDC00 \<le> c \<and> c \<le> 0xDFFF)"

definition surrogate_pair_to_code_point :: "jschar \<Rightarrow> jschar \<Rightarrow> nat" where
  "surrogate_pair_to_code_point lead trail =
     (unat lead - 0xD800) * 0x400 + (unat trail - 0xDC00) + 0x10000"

definition utf8_octets :: "nat \<Rightarrow> nat list" where
  "utf8_octets cp =
     (if cp < 0x80 then [cp]
      else if cp < 0x800 then [0xC0 + cp div 0x40, 0x80 + cp mod 0x40]
      else if cp < 0x10000 then
        [0xE0 + cp div 0x1000, 0x80 + (cp div 0x40) mod 0x40, 0x80 + cp mod 0x40]
      else
        [0xF0 + cp div 0x40000, 0x80 + (cp div 0x1000) mod 0x40,
         0x80 + (cp div 0x40) mod 0x40, 0x80 + cp mod 0x40])"

definition hex_digit :: "nat \<Rightarrow> jschar" where
  "hex_digit n = of_nat (if n < 10 then 0x30 + n else 0x41 + (n - 10))"

definition percent_octet :: "nat \<Rightarrow> jsstring" where
  "percent_octet b = [0x25, hex_digit (b div 16), hex_digit (b mod 16)]"

definition percent_octets :: "nat \<Rightarrow> jsstring" where
  "percent_octets cp = concat (map percent_octet (utf8_octets cp))"

definition then_append :: "jsstring \<Rightarrow> js_error + jsstring \<Rightarrow> js_error + jsstring" where
  "then_append r rest = (case rest of Inl e \<Rightarrow> Inl e | Inr s \<Rightarrow> Inr (r @ s))"

fun encodeURIComponent :: "jsstring \<Rightarrow> js_error + jsstring" where
  "encodeURIComponent [] = Inr []"
| "encodeURIComponent [c] =
     (if uri_unescaped c then Inr [c]
      else if is_leading_surrogate c \<or> is_trailing_surrogate c then Inl URIError
      else Inr (percent_octets (unat c)))"
| "encodeURIComponent (c # c' # cs) =
     (if uri_unescaped c then then_append [c] (encodeURIComponent (c' # cs))
      else if is_trailing_surrogate c then Inl URIError
      else if is_leading_surrogate c then
        (if is_trailing_surrogate c'
         then then_append (percent_octets (surrogate_pair_to_code_point c c'))
                (encodeURIComponent cs)
         else Inl URIError)
      else then_append (percent_octets (unat c)) (encodeURIComponent (c' # cs)))"

text \<open>
  \<open>String.prototype.isWellFormed\<close>: every surrogate is part of a pair. These are the
  strings \<open>encodeURIComponent\<close> accepts.
\<close>

fun isWellFormed :: "jsstring \<Rightarrow> bool" where
  "isWellFormed [] = True"
| "isWellFormed [c] = (\<not> is_leading_surrogate c \<and> \<not> is_trailing_surrogate c)"
| "isWellFormed (c # c' # cs) =
     (if is_leading_surrogate c then is_trailing_surrogate c' \<and> isWellFormed cs
      else \<not> is_trailing_surrogate c \<and> isWellFormed (c' # cs))"

section \<open>String.prototype.replace with a string pattern\<close>

text \<open>
  \<open>s.replace(pattern, replacement)\<close> with two strings replaces the first occurrence of
  the pattern only, and expands \<open>$$\<close>, \<open>$&\<close>, \<open>$`\<close> and \<open>$'\<close> in the replacement
  (GetSubstitution with no captures: \<open>$1\<close> and \<open>$<\<close> stay as they are).
\<close>

fun string_index_of :: "jsstring \<Rightarrow> jsstring \<Rightarrow> nat option" where
  "string_index_of pat [] = (if pat = [] then Some 0 else None)"
| "string_index_of pat (c # cs) =
     (if prefix pat (c # cs) then Some 0 else map_option Suc (string_index_of pat cs))"

fun get_substitution :: "jsstring \<Rightarrow> jsstring \<Rightarrow> jsstring \<Rightarrow> jsstring \<Rightarrow> jsstring" where
  "get_substitution matched preceding following [] = []"
| "get_substitution matched preceding following [c] = [c]"
| "get_substitution matched preceding following (c # c' # cs) =
     (if c = 0x24 then
        (if c' = 0x24 then 0x24 # get_substitution matched preceding following cs
         else if c' = 0x60 then preceding @ get_substitution matched preceding following cs
         else if c' = 0x26 then matched @ get_substitution matched preceding following cs
         else if c' = 0x27 then following @ get_substitution matched preceding following cs
         else c # get_substitution matched preceding following (c' # cs))
      else c # get_substitution matched preceding following (c' # cs))"

definition string_replace :: "jsstring \<Rightarrow> jsstring \<Rightarrow> jsstring \<Rightarrow> jsstring" where
  "string_replace s pat replacement =
     (case string_index_of pat s of
        None \<Rightarrow> s
      | Some pos \<Rightarrow>
          (let preceding = take pos s; following = drop (pos + length pat) s
           in preceding @ get_substitution pat preceding following replacement @ following))"

section \<open>The browser state the scripts write\<close>

text \<open>
  A script navigates by assigning \<open>window.location.href\<close> or by calling
  \<open>location.reload()\<close>; the requests are kept in order, and \<open>location_href\<close> is the
  URL of the page while its script runs. \<open>url\<close> is not an attribute of
  the Location interface (\<open>href\<close> is), so \<open>window.location.url\<close> is an ordinary property
  of the object: reading it gives \<open>undefined\<close> until it is written, and writing it
  navigates nowhere. \<open>location_url\<close> holds it.
\<close>

datatype nav = Assign jsstring | Reload

record browser =
  location_href :: jsstring
  navigations :: "nav list"
  location_url :: "jsstring option"

definition assign_href :: "jsstring \<Rightarrow> 'a browser_scheme \<Rightarrow> 'a browser_scheme" where
  "assign_href target w = w\<lparr>navigations := navigations w @ [Assign target]\<rparr>"

definition reload :: "'a browser_scheme \<Rightarrow> 'a browser_scheme" where
  "reload w = w\<lparr>navigations := navigations w @ [Reload]\<rparr>"

section \<open>Bang resolution: matchBang and handleSearch\<close>

text \<open>
  The Bang Table (\<open>bangs\<close>) is loaded by the page from a file of its own; it is a
  parameter here. An entry has a trigger \<open>t\<close>, a domain \<open>d\<close> and a URL template \<open>u\<close>.
\<close>

record bang =
  t :: jsstring
  d :: jsstring
  u :: jsstring

text \<open>
  \<open>query.match(/^!([a-zA-Z]+)(?:\s(.*))?$/)\<close>: the two capture groups, the second
  \<open>undefined\<close> (\<open>None\<close>) when the optional group did not take part. The letters are
  matched greedily, and giving any of them back cannot help: the next code unit would be
  a letter, which neither \<open>\s\<close> nor \<open>$\<close> accepts. So the first group is the longest run
  of letters after the \<open>!\<close>, and what follows is either the end of the string or one
  white-space code unit and a rest without line terminators (\<open>.\<close> matches none, and
  \<open>$\<close> without the \<open>m\<close> flag is the end of the string).
\<close>

definition bang_regex :: "jsstring \<Rightarrow> (jsstring \<times> jsstring option) option" where
  "bang_regex query =
     (case query of
        [] \<Rightarrow> None
      | c # rest \<Rightarrow>
          if c \<noteq> 0x21 then None
          else
            (let cmd = takeWhile is_ascii_letter rest;
                 tail = dropWhile is_ascii_letter rest
             in if cmd = [] then None
                else
                  (case tail of
                     [] \<Rightarrow> Some (cmd, None)
                   | w # search \<Rightarrow>
                       if is_white_space w \<and> list_all not_line_terminator search
                       then Some (cmd, Some search)
                       else None)))"

definition querySymbol :: jsstring where
  "querySymbol = js ''{'' @ js ''{'' @ js ''{s}'' @ js ''}'' @ js ''}''"

definition matchBang ::
  "bang list \<Rightarrow> jsstring \<Rightarrow> 'a browser_scheme \<Rightarrow> js_error + (bool \<times> 'a browser_scheme)" where
  "matchBang bangs query w =
     (case bang_regex query of
        Some (cmd, group2) \<Rightarrow>
          (let search = (case group2 of None \<Rightarrow> [] | Some s \<Rightarrow> s)
           in case find (\<lambda>item. t item = cmd) bangs of
                Some result \<Rightarrow>
                  if search = [] then Inr (True, assign_href (js ''https://'' @ d result) w)
                  else
                    (case encodeURIComponent search of
                       Inl e \<Rightarrow> Inl e
                     | Inr encoded \<Rightarrow>
                         Inr (True, assign_href (string_replace (u result) querySymbol encoded) w))
              | None \<Rightarrow> Inr (False, w))
      | None \<Rightarrow> Inr (False, w))"

text \<open>
  \<open>handleSearch\<close> of the results page: the value of the search box, trimmed; an empty
  query does nothing; a bang that resolves navigates there; anything else navigates to
  \<open>'?q=' + encodeURIComponent(query)\<close>. The handler returns \<open>false\<close> on every path
  (\<open>e.preventDefault()\<close> touches nothing that is kept here).
\<close>

definition handleSearch ::
  "bang list \<Rightarrow> jsstring \<Rightarrow> 'a browser_scheme \<Rightarrow> js_error + (bool \<times> 'a browser_scheme)" where
  "handleSearch bangs searchInput_value w =
     (let query = trim searchInput_value
      in if query \<noteq> [] then
           (case matchBang bangs query w of
              Inl e \<Rightarrow> Inl e
            | Inr (matched, w') \<Rightarrow>
                if matched then Inr (False, w')
                else
                  (case encodeURIComponent query of
                     Inl e \<Rightarrow> Inl e
                   | Inr encoded \<Rightarrow> Inr (False, assign_href (js ''?q='' @ encoded) w')))
         else Inr (False, w))"

section \<open>Host functions taken as parameters\<close>

text \<open>
  What the scripts get from the browser and cannot be read from them: the value
  \<open>JSON.parse\<close> returns for a response, read in the shape of the backend contract
  (\<open>parse_results\<close> for \<open>JSON.parse(resultsResponse)\<close> of the results script,
  \<open>parse_images\<close> for the array of the images script, \<open>parse_videos\<close> for
  \<open>JSON.parse(resultsResponse).results\<close> of the videos script; \<open>None\<close> when the text is
  not JSON), the host name \<open>new URL(href).hostname\<close> (\<open>None\<close> when the constructor
  throws), the string an error converts to, the digits of a Number beyond the exactly
  representable integers, and the UTF-8 decoding of octets that are not all ASCII.
\<close>

record web_result =
  title :: jsstring
  href :: jsstring
  body :: jsstring
  page_age :: "jsstring option"

text \<open>
  The \<open>infobox\<close> field of a payload: absent, \<open>null\<close>, a string, or an object whose
  properties are texts.
\<close>

datatype infobox_value =
  Undefined | Null | Text jsstring | Object "(jsstring \<times> jsstring) list"

record web_payload =
  results :: "web_result list"
  infobox :: infobox_value

record image_result =
  image' :: jsstring

record video_images =
  large :: "jsstring option"

record video =
  content :: "jsstring option"
  images :: "video_images option"
  title :: "jsstring option"
  uploader :: "jsstring option"
  publisher :: "jsstring option"

record host =
  parse_results :: "jsstring \<Rightarrow> web_payload option"
  parse_images :: "jsstring \<Rightarrow> image_result list option"
  parse_videos :: "jsstring \<Rightarrow> video list option"
  URL_hostname :: "jsstring \<Rightarrow> jsstring option"
  error_string :: "js_error \<Rightarrow> jsstring"
  rounded_number_string :: "int \<Rightarrow> jsstring"
  utf8_decode :: "nat list \<Rightarrow> jsstring"

text \<open>
  \<open>JSON.parse\<close>: a JSON text starts, after white space, with \<open>{\<close>, \<open>[\<close>, \<open>"\<close>,
  \<open>-\<close>, a digit, or one of the words \<open>true\<close>, \<open>false\<close>, \<open>null\<close>. A text that does not
  throws \<open>SyntaxError\<close> whatever the host; for the others the host decides.
\<close>

definition json_white_space :: "jschar \<Rightarrow> bool" where
  "json_white_space c = (c = 0x20 \<or> c = 0x09 \<or> c = 0x0A \<or> c = 0x0D)"

definition json_value_start :: "jsstring \<Rightarrow> bool" where
  "json_value_start text =
     (let s = dropWhile json_white_space text
      in case s of
           [] \<Rightarrow> False
         | c # _ \<Rightarrow>
             c = 0x7B \<or> c = 0x5B \<or> c = 0x22 \<or> c = 0x2D \<or> is_digit c
             \<or> prefix (js ''true'') s \<or> prefix (js ''false'') s \<or> prefix (js ''null'') s)"

definition JSON_parse :: "(jsstring \<Rightarrow> 'a option) \<Rightarrow> jsstring \<Rightarrow> js_error + 'a" where
  "JSON_parse host_parse text =
     (if json_value_start text then
        (case host_parse text of None \<Rightarrow> Inl (SyntaxError text) | Some v \<Rightarrow> Inr v)
      else Inl (SyntaxError text))"

section \<open>Numbers: parseInt and the conversion to a string\<close>

text \<open>
  The Numbers the scripts handle come from \<open>parseInt\<close> and from loop counters: \<open>NaN\<close>,
  an integer below \<open>2^53\<close> in magnitude (exact), or the rounding of a larger integer
  (\<open>Rounded\<close>, whose digits are the host's).
\<close>

datatype jsnum = NaN | Integer int | Rounded int

definition number_of_integer :: "int \<Rightarrow> jsnum" where
  "number_of_integer n = (if \<bar>n\<bar> < 2 ^ 53 then Integer n else Rounded n)"

definition digit_value :: "jschar \<Rightarrow> nat" where
  "digit_value c =
     (if is_digit c then unat c - 0x30
      else if 0x61 \<le> c \<and> c \<le> 0x7A then unat c - 0x61 + 10
      else if 0x41 \<le> c \<and> c \<le> 0x5A then unat c - 0x41 + 10
      else 36)"

definition is_radix_digit :: "nat \<Rightarrow> jschar \<Rightarrow> bool" where
  "is_radix_digit radix c = (digit_value c < radix)"

definition digits_value :: "nat \<Rightarrow> jsstring \<Rightarrow> nat" where
  "digits_value radix z = foldl (\<lambda>acc c. acc * radix + digit_value c) 0 z"

definition parseInt :: "jsstring \<Rightarrow> jsnum" where
  "parseInt string =
     (let s = dropWhile is_white_space string;
          negative = (s \<noteq> [] \<and> hd s = 0x2D);
          s1 = (if s \<noteq> [] \<and> (hd s = 0x2B \<or> hd s = 0x2D) then tl s else s);
          hex = (length s1 \<ge> 2 \<and> hd s1 = 0x30 \<and> (hd (tl s1) = 0x78 \<or> hd (tl s1) = 0x58));
          radix = (if hex then 16 else 10);
          s2 = (if hex then drop 2 s1 else s1);
          z = takeWhile (is_radix_digit radix) s2
      in if z = [] then NaN
         else number_of_integer
                (if negative then - int (digits_value radix z) else int (digits_value radix z)))"

function nat_string :: "nat \<Rightarrow> jsstring" where
  "nat_string n =
     (if n < 10 then [0x30 + of_nat n]
      else nat_string (n div 10) @ [0x30 + of_nat (n mod 10)])"
  by pat_completeness auto
termination
  by (relation "measure (\<lambda>n. n)") auto

definition number_string :: "host \<Rightarrow> jsnum \<Rightarrow> jsstring" where
  "number_string h x =
     (case x of
        NaN \<Rightarrow> js ''NaN''
      | Integer n \<Rightarrow> (if n < 0 then js ''-'' @ nat_string (nat (- n)) else nat_string (nat n))
      | Rounded n \<Rightarrow> rounded_number_string h n)"

definition strict_equals :: "jsnum \<Rightarrow> jsnum \<Rightarrow> bool" where
  "strict_equals x y = (case (x, y) of (Integer a, Integer b) \<Rightarrow> a = b | _ \<Rightarrow> False)"

section \<open>URLSearchParams\<close>

text \<open>
  A \<open>URLSearchParams\<close> object is its list of name-value pairs, in order and with
  duplicates. \<open>get\<close> returns the value of the first pair of that name (\<open>null\<close>, here
  \<open>None\<close>, when there is none); \<open>set\<close> writes the first pair of that name and removes
  the others, or appends a pair; \<open>toString\<close> is the \<open>application/x-www-form-urlencoded\<close>
  serializer and the constructor its parser (URL Standard).
\<close>

type_synonym params = "(jsstring \<times> jsstring) list"

definition URLSearchParams_get :: "params \<Rightarrow> jsstring \<Rightarrow> jsstring option" where
  "URLSearchParams_get ps name = map_option snd (find (\<lambda>kv. fst kv = name) ps)"

fun URLSearchParams_set :: "params \<Rightarrow> jsstring \<Rightarrow> jsstring \<Rightarrow> params" where
  "URLSearchParams_set [] name v = [(name, v)]"
| "URLSearchParams_set (kv # ps) name v =
     (if fst kv = name then (name, v) # filter (\<lambda>kv'. fst kv' \<noteq> name) ps
      else kv # URLSearchParams_set ps name v)"

text \<open>The code points of a string; a surrogate outside a pair reads as U+FFFD.\<close>

fun code_points :: "jsstring \<Rightarrow> nat list" where
  "code_points [] = []"
| "code_points [c] =
     [if is_leading_surrogate c \<or> is_trailing_surrogate c then 0xFFFD else unat c]"
| "code_points (c # c' # cs) =
     (if is_leading_surrogate c then
        (if is_trailing_surrogate c' then surrogate_pair_to_code_point c c' # code_points cs
         else 0xFFFD # code_points (c' # cs))
      else if is_trailing_surrogate c then 0xFFFD # code_points (c' # cs)
      else unat c # code_points (c' # cs))"

definition utf8_encode :: "jsstring \<Rightarrow> nat list" where
  "utf8_encode s = concat (map utf8_octets (code_points s))"

definition form_encode_octet :: "nat \<Rightarrow> jsstring" where
  "form_encode_octet b =
     (if b = 0x20 then [0x2B]
      else if b = 0x2A \<or> b = 0x2D \<or> b = 0x2E \<or> b = 0x5F \<or> (0x30 \<le> b \<and> b \<le> 0x39)
              \<or> (0x41 \<le> b \<and> b \<le> 0x5A) \<or> (0x61 \<le> b \<and> b \<le> 0x7A)
      then [of_nat b]
      else percent_octet b)"

definition form_encode :: "jsstring \<Rightarrow> jsstring" where
  "form_encode s = concat (map form_encode_octet (utf8_encode s))"

fun join_pairs :: "jsstring list \<Rightarrow> jsstring" where
  "join_pairs [] = []"
| "join_pairs [x] = x"
| "join_pairs (x # y # ys) = x @ [0x26] @ join_pairs (y # ys)"

definition URLSearchParams_toString :: "params \<Rightarrow> jsstring" where
  "URLSearchParams_toString ps =
     join_pairs (map (\<lambda>kv. form_encode (fst kv) @ [0x3D] @ form_encode (snd kv)) ps)"

definition is_hex_octet :: "nat \<Rightarrow> bool" where
  "is_hex_octet b =
     ((0x30 \<le> b \<and> b \<le> 0x39) \<or> (0x41 \<le> b \<and> b \<le> 0x46) \<or> (0x61 \<le> b \<and> b \<le> 0x66))"

definition hex_octet_value :: "nat \<Rightarrow> nat" where
  "hex_octet_value b =
     (if b \<le> 0x39 then b - 0x30 else if b \<le> 0x46 then b - 0x41 + 10 else b - 0x61 + 10)"

fun percent_decode :: "nat list \<Rightarrow> nat list" where
  "percent_decode (b # h1 # h2 # bs) =
     (if b = 0x25 \<and> is_hex_octet h1 \<and> is_hex_octet h2
      then (hex_octet_value h1 * 16 + hex_octet_value h2) # percent_decode bs
      else b # percent_decode (h1 # h2 # bs))"
| "percent_decode bs = bs"

definition form_decode :: "host \<Rightarrow> jsstring \<Rightarrow> jsstring" where
  "form_decode h s =
     (let octets = percent_decode (utf8_encode (map (\<lambda>c. if c = 0x2B then 0x20 else c) s))
      in if list_all (\<lambda>b. b < 0x80) octets then map of_nat octets else utf8_decode h octets)"

fun split_on :: "jschar \<Rightarrow> jsstring \<Rightarrow> jsstring list" where
  "split_on sep [] = [[]]"
| "split_on sep (c # cs) =
     (if c = sep then [] # split_on sep cs
      else (case split_on sep cs of [] \<Rightarrow> [[c]] | x # xs \<Rightarrow> (c # x) # xs))"

definition URLSearchParams :: "host \<Rightarrow> jsstring \<Rightarrow> params" where
  "URLSearchParams h init =
     (let s = (if init \<noteq> [] \<and> hd init = 0x3F then tl init else init)
      in map (\<lambda>sq. (form_decode h (takeWhile (\<lambda>c. c \<noteq> 0x3D) sq),
                     form_decode h (drop 1 (dropWhile (\<lambda>c. c \<noteq> 0x3D) sq))))
           (filter (\<lambda>sq. sq \<noteq> []) (split_on 0x26 s)))"

text \<open>
  \<open>location.search\<close> of a serialized URL: from the first \<open>?\<close> to the fragment, empty
  when the query is.
\<close>

definition location_search :: "jsstring \<Rightarrow> jsstring" where
  "location_search url =
     (let q = dropWhile (\<lambda>c. c \<noteq> 0x3F) (takeWhile (\<lambda>c. c \<noteq> 0x23) url)
      in if length q \<le> 1 then [] else q)"

section \<open>The parameters of a page\<close>

text \<open>
  The constants at the head of each script, computed from
  \<open>urlParams = new URLSearchParams(window.location.search)\<close>. \<open>x || "default"\<close> takes the
  default for \<open>null\<close> and for the empty string. \<open>encodeURIComponent(query)\<close> converts a
  \<open>null\<close> query to the string \<open>null\<close> first, and its \<open>URIError\<close> ends the script. The
  images script reads three constants, the videos script adds \<open>page\<close>, the results script
  adds \<open>failed\<close>, \<open>language\<close> and \<open>engine\<close>.
\<close>

definition or_default :: "jsstring option \<Rightarrow> jsstring \<Rightarrow> jsstring" where
  "or_default v dflt = (case v of None \<Rightarrow> dflt | Some s \<Rightarrow> if s = [] then dflt else s)"

definition string_of_nullable :: "jsstring option \<Rightarrow> jsstring" where
  "string_of_nullable v = (case v of None \<Rightarrow> js ''null'' | Some s \<Rightarrow> s)"

record images_parameters =
  safeSearch :: jsstring
  query :: "jsstring option"
  encodedQuery :: jsstring

record videos_parameters = images_parameters +
  page :: jsnum

record results_parameters = videos_parameters +
  failed :: jsstring
  language :: jsstring
  engine :: jsstring

definition images_js_parameters :: "params \<Rightarrow> js_error + images_parameters" where
  "images_js_parameters urlParams =
     (case encodeURIComponent (string_of_nullable (URLSearchParams_get urlParams (js ''q''))) of
        Inl e \<Rightarrow> Inl e
      | Inr encoded \<Rightarrow>
          Inr \<lparr>safeSearch = or_default (URLSearchParams_get urlParams (js ''safe'')) (js ''strict''),
               query = URLSearchParams_get urlParams (js ''q''),
               encodedQuery = encoded\<rparr>)"

definition videos_js_parameters :: "params \<Rightarrow> js_error + videos_parameters" where
  "videos_js_parameters urlParams =
     (case encodeURIComponent (string_of_nullable (URLSearchParams_get urlParams (js ''q''))) of
        Inl e \<Rightarrow> Inl e
      | Inr encoded \<Rightarrow>
          Inr \<lparr>safeSearch = or_default (URLSearchParams_get urlParams (js ''safe'')) (js ''strict''),
               query = URLSearchParams_get urlParams (js ''q''),
               encodedQuery = encoded,
               page = parseInt (or_default (URLSearchParams_get urlParams (js ''page'')) (js ''0''))\<rparr>)"

definition results_js_parameters :: "params \<Rightarrow> js_error + results_parameters" where
  "results_js_parameters urlParams =
     (case encodeURIComponent (string_of_nullable (URLSearchParams_get urlParams (js ''q''))) of
        Inl e \<Rightarrow> Inl e
      | Inr encoded \<Rightarrow>
          Inr \<lparr>safeSearch = or_default (URLSearchParams_get urlParams (js ''safe'')) (js ''strict''),
               query = URLSearchParams_get urlParams (js ''q''),
               encodedQuery = encoded,
               page = parseInt (or_default (URLSearchParams_get urlParams (js ''page'')) (js ''0'')),
               failed = or_default (URLSearchParams_get urlParams (js ''failed'')) (js ''false''),
               language = or_default (URLSearchParams_get urlParams (js ''lang'')) (js ''en-GB''),
               engine = or_default (URLSearchParams_get urlParams (js ''engine'')) (js ''duckduckgo'')\<rparr>)"

section \<open>The request each script sends\<close>

definition results_request_url :: "host \<Rightarrow> results_parameters \<Rightarrow> jsstring" where
  "results_request_url h p =
     js ''https://unmappedstack.pythonanywhere.com/api/search?q='' @ encodedQuery p
     @ js ''&safe='' @ safeSearch p @ js ''&page='' @ number_string h (page p)
     @ js ''&language='' @ language p @ js ''&engine='' @ engine p"

definition images_request_url :: "images_parameters \<Rightarrow> jsstring" where
  "images_request_url p =
     js ''https://unmappedstack.pythonanywhere.com/api/images?q='' @ encodedQuery p
     @ js ''&safe='' @ safeSearch p"

definition videos_request_url :: "host \<Rightarrow> videos_parameters \<Rightarrow> jsstring" where
  "videos_request_url h p =
     js ''https://unmappedstack.pythonanywhere.com/api/search?videos=true&q='' @ encodedQuery p
     @ js ''&safe='' @ safeSearch p @ js ''&page='' @ number_string h (page p)"

section \<open>The document the scripts write\<close>

text \<open>
  The elements a script reaches by id are taken to exist. Of the element \<open>results\<close> the
  scripts assign \<open>innerHTML\<close> (which replaces the children) and append children; the
  pagination strip is inserted after a container, so it is not one of its children.
\<close>

record page_link =
  a_href :: jsstring
  a_textContent :: jsstring
  a_classList :: "jsstring list"

record 'node document = browser +
  results_innerHTML :: jsstring
  results_children :: "'node list"
  pagination_containers :: "page_link list list"

definition set_results_innerHTML ::
  "jsstring \<Rightarrow> ('node, 'a) document_scheme \<Rightarrow> ('node, 'a) document_scheme" where
  "set_results_innerHTML html st = st\<lparr>results_innerHTML := html, results_children := []\<rparr>"

section \<open>results.js: the web results\<close>

text \<open>
  The asynchronous function of the script: it sends the request, and when the response has
  arrived it writes the result list, the pagination strip and the infobox. A result is
  kept by what the script assigns to the elements it builds for it.
\<close>

record result_div =
  dateDiv_textContent :: "jsstring option"
  link_href :: jsstring
  link_textContent :: jsstring
  favicon_src :: jsstring
  urlText_textContent :: jsstring
  snippetDiv_innerHTML :: jsstring

text \<open>
  The items appended to the infobox: the calculator (label, answer), the dictionary (word,
  type, definition, link) and the encyclopedia (info, and the link's \<open>href\<close>, text and
  \<open>target\<close>), each by the \<open>innerHTML\<close> or attribute the script assigns.
\<close>

datatype infobox_item =
  CalcItem jsstring jsstring
  | DefinitionItem jsstring jsstring jsstring jsstring
  | WikipediaItem jsstring jsstring jsstring jsstring

record results_document = "result_div document" +
  infobox_display :: jsstring
  infobox_title_innerHTML :: jsstring
  infobox_children :: "infobox_item list"

text \<open>
  \<open>createPagination(totalPages = 9, currentPage = page)\<close>: one link for each \<open>i\<close> from
  \<open>0\<close> to \<open>totalPages\<close>; its target is the current parameters with \<open>page\<close> set to \<open>i\<close>.
\<close>

function createPagination_links :: "nat \<Rightarrow> nat \<Rightarrow> jsnum \<Rightarrow> params \<Rightarrow> page_link list" where
  "createPagination_links i totalPages currentPage urlParams =
     (if i \<le> totalPages then
        \<lparr>a_href = js ''?''
           @ URLSearchParams_toString (URLSearchParams_set urlParams (js ''page'') (nat_string i)),
         a_textContent = nat_string (i + 1),
         a_classList =
           (if strict_equals (Integer (int i)) currentPage then [js ''page-btn'', js ''active'']
            else [js ''page-btn''])\<rparr>
        # createPagination_links (i + 1) totalPages currentPage urlParams
      else [])"
  by pat_completeness auto
termination
  by (relation "measure (\<lambda>(i, totalPages, currentPage, urlParams). Suc totalPages - i)") auto

definition createPagination ::
  "nat \<Rightarrow> jsnum \<Rightarrow> params \<Rightarrow> ('node, 'a) document_scheme \<Rightarrow> ('node, 'a) document_scheme" where
  "createPagination totalPages currentPage urlParams st =
     st\<lparr>pagination_containers :=
          pagination_containers st @ [createPagination_links 0 totalPages currentPage urlParams]\<rparr>"

text \<open>
  One pass of the result loop. \<open>new URL(href)\<close> may throw, between the title and the
  snippet; nothing of the item is appended then.
\<close>

definition render_result :: "host \<Rightarrow> web_result \<Rightarrow> js_error + result_div" where
  "render_result h r =
     (let rawTitle = web_result.title r;
          link_text = (if length rawTitle > 60 then take 60 rawTitle @ js ''...'' else rawTitle)
      in case URL_hostname h (href r) of
           None \<Rightarrow> Inl (InvalidURL (href r))
         | Some hostname \<Rightarrow>
             (let rawDescription = body r;
                  snippet = (if length rawDescription > 300
                             then take 300 rawDescription @ js ''...'' else rawDescription)
              in Inr \<lparr>dateDiv_textContent =
                        (case page_age r of
                           None \<Rightarrow> None
                         | Some age \<Rightarrow>
                             if age = [] then None
                             else Some (js ''PUBLISHED '' @ takeWhile (\<lambda>c. c \<noteq> 0x54) age)),
                      link_href = href r,
                      link_textContent = link_text,
                      favicon_src = js ''https://icons.duckduckgo.com/ip3/'' @ hostname @ js ''.ico'',
                      urlText_textContent = href r,
                      snippetDiv_innerHTML = snippet\<rparr>))"

fun results_loop ::
  "host \<Rightarrow> web_result list \<Rightarrow> results_document \<Rightarrow> js_error option \<times> results_document" where
  "results_loop h [] st = (None, st)"
| "results_loop h (r # rs) st =
     (case render_result h r of
        Inl e \<Rightarrow> (Some e, st)
      | Inr resultDiv \<Rightarrow>
          results_loop h rs (st\<lparr>results_children := results_children st @ [resultDiv]\<rparr>))"

text \<open>
  The infobox. \<open>x == "null"\<close> holds of the string \<open>null\<close> only (an object converts to
  \<open>[object Object]\<close>); \<open>if (infoboxData)\<close> fails for \<open>undefined\<close>, \<open>null\<close> and the empty
  string; a property that is missing reads as \<open>undefined\<close>, also in a concatenation.
\<close>

definition loose_equals_string :: "infobox_value \<Rightarrow> jsstring \<Rightarrow> bool" where
  "loose_equals_string v s =
     (case v of
        Undefined \<Rightarrow> False
      | Null \<Rightarrow> False
      | Text x \<Rightarrow> x = s
      | Object _ \<Rightarrow> js ''[object Object]'' = s)"

definition truthy :: "infobox_value \<Rightarrow> bool" where
  "truthy v = (case v of Undefined \<Rightarrow> False | Null \<Rightarrow> False | Text x \<Rightarrow> x \<noteq> [] | Object _ \<Rightarrow> True)"

definition property :: "infobox_value \<Rightarrow> jsstring \<Rightarrow> jsstring option" where
  "property v name = (case v of Object ps \<Rightarrow> map_of ps name | _ \<Rightarrow> None)"

definition string_of_property :: "infobox_value \<Rightarrow> jsstring \<Rightarrow> jsstring" where
  "string_of_property v name =
     (case property v name of None \<Rightarrow> js ''undefined'' | Some s \<Rightarrow> s)"

definition render_infobox :: "infobox_value \<Rightarrow> results_document \<Rightarrow> results_document" where
  "render_infobox infoboxData st =
     (if truthy infoboxData then
        (let st1 = st\<lparr>infobox_display := js ''block''\<rparr>
         in if property infoboxData (js ''infotype'') = Some (js ''calc'') then
              st1\<lparr>infobox_title_innerHTML := js ''Calculator'',
                  infobox_children := infobox_children st1 @
                    [CalcItem (string_of_property infoboxData (js ''equ'') @ js '' ='')
                       (js ''<h2>'' @ string_of_property infoboxData (js ''result'') @ js ''</h2>'')]\<rparr>
            else if property infoboxData (js ''infotype'') = Some (js ''definition'') then
              st1\<lparr>infobox_title_innerHTML := js ''Dictionary'',
                  infobox_children := infobox_children st1 @
                    [DefinitionItem
                       (js ''<h2>'' @ string_of_property infoboxData (js ''word'') @ js ''</h2>'')
                       (string_of_property infoboxData (js ''type''))
                       (string_of_property infoboxData (js ''definition''))
                       (js ''<br>There may be more definitions, see them all at <a href=''
                        @ [0x27] @ string_of_property infoboxData (js ''url'') @ [0x27]
                        @ js ''>Wiktionary</a>'')]\<rparr>
            else if property infoboxData (js ''infotype'') = Some (js ''wikipedia'') then
              st1\<lparr>infobox_title_innerHTML := string_of_property infoboxData (js ''title''),
                  infobox_children := infobox_children st1 @
                    [WikipediaItem (string_of_property infoboxData (js ''info''))
                       (string_of_property infoboxData (js ''url''))
                       (js ''Read more on Wikipedia'') (js ''_blank'')]\<rparr>
            else st1)
      else st)"

text \<open>
  The body of the \<open>try\<close> block after the response has arrived. The result is the
  document and, when the block threw, the error. Of the sentinels: \<open>noquery\<close> prints a
  message and returns; \<open>noresults\<close> with \<open>failed == "true"\<close> prints the rate-limit
  message and returns; \<open>noresults\<close> otherwise writes the property \<open>url\<close> of
  \<open>window.location\<close> and goes on to \<open>JSON.parse\<close>, as every other response does.
\<close>

definition results_sentinels ::
  "results_parameters \<Rightarrow> jsstring \<Rightarrow> results_document
     \<Rightarrow> (js_error option \<times> results_document) + results_document" where
  "results_sentinels p resultsResponse st =
     (if resultsResponse = js ''noquery'' then
        Inl (None, set_results_innerHTML
                     (js ''<p>There was an error, please try again: noquery</p>'') st)
      else if resultsResponse = js ''noresults'' then
        (if failed p = js ''true'' then
           (case encodeURIComponent (string_of_nullable (query p)) of
              Inl e \<Rightarrow> Inl (Some e, st)
            | Inr encoded \<Rightarrow>
                Inl (None, set_results_innerHTML
                  (js ''<h1>Woah!</h1><p>nilch has been getting unexpected amounts of traffic, thousands of searches within an hour or two! Unfortunately, this means API limits have been surpassed. <br><br><b>This should be fixed within one day</b>.</p><br><a href='https://duckduckgo.com/''
                   @ encoded
                   @ [0x27] @ js ''>Search the same query on DuckDuckGo</a> until then?'') st))
         else
           Inr (st\<lparr>location_url :=
                  Some ((case location_url st of None \<Rightarrow> js ''undefined'' | Some x \<Rightarrow> x)
                        @ js ''&failed=true'')\<rparr>))
      else Inr st)"

definition results_render ::
  "host \<Rightarrow> params \<Rightarrow> results_parameters \<Rightarrow> web_payload \<Rightarrow> results_document
     \<Rightarrow> js_error option \<times> results_document" where
  "results_render h urlParams p resultsData st =
     (let searchResults = results resultsData;
          infoboxData = (if loose_equals_string (infobox resultsData) (js ''null'') then Null
                         else infobox resultsData);
          st1 = set_results_innerHTML [] st
      in if length searchResults = 0 then
           (None, set_results_innerHTML
              (js ''There weren't any results found! Maybe try switching to another engine?'') st1)
         else
           (case results_loop h searchResults st1 of
              (Some e, st2) \<Rightarrow> (Some e, st2)
            | (None, st2) \<Rightarrow>
                (None, render_infobox infoboxData (createPagination 9 (page p) urlParams st2))))"

definition results_try ::
  "host \<Rightarrow> params \<Rightarrow> results_parameters \<Rightarrow> jsstring \<Rightarrow> results_document
     \<Rightarrow> js_error option \<times> results_document" where
  "results_try h urlParams p resultsResponse st =
     (case results_sentinels p resultsResponse st of
        Inl finished \<Rightarrow> finished
      | Inr st1 \<Rightarrow>
          (case JSON_parse (parse_results h) resultsResponse of
             Inl e \<Rightarrow> (Some e, st1)
           | Inr resultsData \<Rightarrow> results_render h urlParams p resultsData st1))"

text \<open>
  The whole handler: the \<open>catch\<close> block prints the error in \<open>results\<close> (and on the
  console, which is not kept here).
\<close>

definition results_catch :: "host \<Rightarrow> js_error option \<times> results_document \<Rightarrow> results_document" where
  "results_catch h outcome =
     (case outcome of
        (None, st') \<Rightarrow> st'
      | (Some error, st') \<Rightarrow>
          set_results_innerHTML
            (js ''<p>Error loading search results. Please try again.<br>'' @ error_string h error
             @ js ''</p>'') st')"

definition results_main ::
  "host \<Rightarrow> params \<Rightarrow> results_parameters \<Rightarrow> jsstring \<Rightarrow> results_document \<Rightarrow> results_document" where
  "results_main h urlParams p resultsResponse st =
     results_catch h (results_try h urlParams p resultsResponse st)"

section \<open>The images script\<close>

text \<open>
  The script of the images page. Each image is appended to \<open>results\<close> as a link around an
  \<open>img\<close>; an image that fails to load is removed by its \<open>onerror\<close> handler later, which
  is not part of this function.
\<close>

record image_item =
  imageItem_link_href :: jsstring
  imageItem_img_src :: jsstring

record images_document = "image_item document" +
  loading_innerText :: jsstring

fun images_loop :: "image_result list \<Rightarrow> images_document \<Rightarrow> images_document" where
  "images_loop [] st = st"
| "images_loop (r # rs) st =
     images_loop rs
       (st\<lparr>results_children := results_children st
             @ [\<lparr>imageItem_link_href = image' r, imageItem_img_src = image' r\<rparr>]\<rparr>)"

definition images_try ::
  "host \<Rightarrow> jsstring \<Rightarrow> images_document \<Rightarrow> js_error option \<times> images_document" where
  "images_try h response st =
     (if response = js ''noquery'' then
        (None, set_results_innerHTML
                 (js ''<p>There was an error, please try again: noquery</p>'') st)
      else if response = js ''noresults'' then
        (None, set_results_innerHTML
                 (js ''<p>There was an error, please try again: noresults</p>'') st)
      else
        (case JSON_parse (parse_images h) response of
           Inl e \<Rightarrow> (Some e, st)
         | Inr searchResults \<Rightarrow> (None, (images_loop searchResults st)\<lparr>loading_innerText := []\<rparr>)))"

definition images_main :: "host \<Rightarrow> jsstring \<Rightarrow> images_document \<Rightarrow> images_document" where
  "images_main h response st =
     (case images_try h response st of
        (None, st') \<Rightarrow> st'
      | (Some error, st') \<Rightarrow>
          set_results_innerHTML (js ''<p>Error loading images. Please try again.</p>'') st')"

section \<open>videos.js\<close>

record video_card =
  card_href :: jsstring
  img_src :: jsstring
  title_textContent :: jsstring
  meta_textContent :: jsstring

record 'node videos_document = "'node document" +
  videoResults_innerHTML :: jsstring
  videoResults_children :: "video_card list"

text \<open>
  \<open>createPagination\<close> of the videos script: the target of link \<open>i\<close> is
  \<open>window.location.href + "&page=" + i\<close>.
\<close>

function createPagination_videos_links :: "nat \<Rightarrow> nat \<Rightarrow> jsnum \<Rightarrow> jsstring \<Rightarrow> page_link list" where
  "createPagination_videos_links i totalPages currentPage location =
     (if i \<le> totalPages then
        \<lparr>a_href = location @ js ''&page='' @ nat_string i,
         a_textContent = nat_string (i + 1),
         a_classList =
           (if strict_equals (Integer (int i)) currentPage then [js ''page-btn'', js ''active'']
            else [js ''page-btn''])\<rparr>
        # createPagination_videos_links (i + 1) totalPages currentPage location
      else [])"
  by pat_completeness auto
termination
  by (relation "measure (\<lambda>(i, totalPages, currentPage, location). Suc totalPages - i)") auto

definition createPagination_videos ::
  "nat \<Rightarrow> jsnum \<Rightarrow> ('node, 'a) document_scheme \<Rightarrow> ('node, 'a) document_scheme" where
  "createPagination_videos totalPages currentPage st =
     st\<lparr>pagination_containers :=
          pagination_containers st
          @ [createPagination_videos_links 0 totalPages currentPage (location_href st)]\<rparr>"

text \<open>
  One call of the \<open>forEach\<close> callback. \<open>video.images.large\<close> throws when \<open>images\<close> is
  missing; \<open>x || "default"\<close> and the conditional take the fallback for a missing and for
  an empty string.
\<close>

definition no_thumbnail_svg :: jsstring where
  "no_thumbnail_svg =
     js ''<svg width='160' height='90' xmlns='http://www.w3.org/2000/svg'>''
     @ [0x0A] @ js ''                      <rect width='160' height='90' fill='#333'/>''
     @ [0x0A] @ js ''                      <text x='50%' y='50%' fill='#aaa' font-size='14' text-anchor='middle' dy='.3em'>No Thumbnail</text>''
     @ [0x0A] @ js ''                   </svg>''"

text \<open>
  What \<open>"data:image/svg+xml;charset=UTF-8," + encodeURIComponent(...)\<close> evaluates to for
  that text, written out (lemma \<open>no_thumbnail_encoded\<close>).
\<close>

definition no_thumbnail_data_uri :: jsstring where
  "no_thumbnail_data_uri =
     js ''data:image/svg+xml;charset=UTF-8,''
     @ js ''%3Csvg%20width%3D'160'%20height%3D'90'%20xmlns%3D'http%3A%2F%2Fwww.w3.org%2F2000%2Fsvg'%3E%0A%20%20%20%20%20%20%20%20%20%20%20%20%20%20%20%20%20%20%20%20%20%20%3Crect%20width%3D'160'%20height%3D'90'%20fill%3D'%23333'%2F%3E%0A%20%20%20%20%20%20%20%20%20%20%20%20%20%20%20%20%20%20%20%20%20%20%3Ctext%20x%3D'50%25'%20y%3D'50%25'%20fill%3D'%23aaa'%20font-size%3D'14'%20text-anchor%3D'middle'%20dy%3D'.3em'%3ENo%20Thumbnail%3C%2Ftext%3E%0A%20%20%20%20%20%20%20%20%20%20%20%20%20%20%20%20%20%20%20%3C%2Fsvg%3E''"

definition render_video :: "video \<Rightarrow> js_error + video_card" where
  "render_video v =
     (case images v of
        None \<Rightarrow> Inl (ReadOfUndefined (js ''large''))
      | Some imgs \<Rightarrow>
          (case (case large imgs of
                   None \<Rightarrow> then_append (js ''data:image/svg+xml;charset=UTF-8,'')
                             (encodeURIComponent no_thumbnail_svg)
                 | Some l \<Rightarrow>
                     if l \<noteq> [] then Inr l
                     else then_append (js ''data:image/svg+xml;charset=UTF-8,'')
                            (encodeURIComponent no_thumbnail_svg)) of
             Inl e \<Rightarrow> Inl e
           | Inr thumbSrc \<Rightarrow>
               Inr \<lparr>card_href = or_default (content v) (js ''#''),
                    img_src = thumbSrc,
                    title_textContent = or_default (video.title v) (js ''Untitled Video''),
                    meta_textContent =
                      or_default (uploader v) (js ''Unknown Creator'') @ [0x20, 0x2022, 0x20]
                      @ or_default (publisher v) (js ''Unknown Platform'')\<rparr>))"

fun videos_forEach ::
  "video list \<Rightarrow> 'node videos_document \<Rightarrow> js_error option \<times> 'node videos_document" where
  "videos_forEach [] st = (None, st)"
| "videos_forEach (v # vs) st =
     (case render_video v of
        Inl e \<Rightarrow> (Some e, st)
      | Inr videoCard \<Rightarrow>
          videos_forEach vs
            (st\<lparr>videoResults_children := videoResults_children st @ [videoCard]\<rparr>))"

definition videos_try ::
  "host \<Rightarrow> videos_parameters \<Rightarrow> jsstring \<Rightarrow> 'node videos_document
     \<Rightarrow> js_error option \<times> 'node videos_document" where
  "videos_try h p resultsResponse st =
     (if resultsResponse = js ''noquery'' then
        (None, set_results_innerHTML
                 (js ''<p>There was an error, please try again: noquery</p>'') st)
      else
        (let st1 = (if resultsResponse = js ''noresults'' then reload st else st)
         in case JSON_parse (parse_videos h) resultsResponse of
              Inl e \<Rightarrow> (Some e, st1)
            | Inr resultsData \<Rightarrow>
                (case videos_forEach resultsData
                        (st1\<lparr>videoResults_innerHTML := [], videoResults_children := []\<rparr>) of
                   (Some e, st2) \<Rightarrow> (Some e, st2)
                 | (None, st2) \<Rightarrow> (None, createPagination_videos 9 (page p) st2))))"

definition videos_main ::
  "host \<Rightarrow> videos_parameters \<Rightarrow> jsstring \<Rightarrow> 'node videos_document \<Rightarrow> 'node videos_document" where
  "videos_main h p resultsResponse st =
     (case videos_try h p resultsResponse st of
        (None, st') \<Rightarrow> st'
      | (Some error, st') \<Rightarrow>
          set_results_innerHTML
            (js ''<p>Error loading search results. Please try again.<br>'' @ error_string h error
             @ js ''</p>'') st')"

section \<open>Properties\<close>

subsection \<open>Percent-encoding and replacement\<close>

lemma hex_digit_unescaped: "n < 16 \<Longrightarrow> uri_unescaped (hex_digit n)"
proof -
  assume n: "n < 16"
  have "unat (hex_digit n) = (if n < 10 then 0x30 + n else 0x41 + (n - 10))"
    using n by (simp add: hex_digit_def unat_of_nat)
  then show ?thesis
    using n by (auto simp: uri_unescaped_def is_digit_def is_ascii_letter_def word_le_nat_alt
        split: if_splits)
qed

lemma utf8_octets_bound: "cp < 0x110000 \<Longrightarrow> b \<in> set (utf8_octets cp) \<Longrightarrow> b < 256"
  by (auto simp: utf8_octets_def split: if_splits)

lemma percent_octets_alphabet:
  assumes "cp < 0x110000" and "c \<in> set (percent_octets cp)"
  shows "uri_unescaped c \<or> c = 0x25"
proof -
  from assms(2) obtain b where b: "b \<in> set (utf8_octets cp)" and c: "c \<in> set (percent_octet b)"
    by (auto simp: percent_octets_def)
  from utf8_octets_bound [OF assms(1) b] have "b div 16 < 16" and "b mod 16 < 16" by auto
  then have "uri_unescaped (hex_digit (b div 16))" and "uri_unescaped (hex_digit (b mod 16))"
    by (simp_all add: hex_digit_unescaped)
  with c show ?thesis by (auto simp: percent_octet_def)
qed

lemma unat_code_unit_bound: "unat (c :: jschar) < 0x110000"
  using unsigned_less [of c, where ?'a = nat] by simp

lemma surrogate_pair_bound:
  "is_leading_surrogate c \<Longrightarrow> is_trailing_surrogate c' \<Longrightarrow>
     surrogate_pair_to_code_point c c' < 0x110000"
  by (auto simp: is_leading_surrogate_def is_trailing_surrogate_def
      surrogate_pair_to_code_point_def word_le_nat_alt)

text \<open>
  What \<open>encodeURIComponent\<close> returns is made of unreserved characters and \<open>%\<close>: it
  holds no \<open>$\<close>, so \<open>replace\<close> inserts it as it is, and no \<open>&\<close>, \<open>=\<close> or \<open>#\<close>, so
  it stays one value of a query string.
\<close>

lemma encodeURIComponent_alphabet:
  "encodeURIComponent s = Inr encoded \<Longrightarrow> c \<in> set encoded \<Longrightarrow> uri_unescaped c \<or> c = 0x25"
proof (induction s arbitrary: encoded rule: encodeURIComponent.induct)
  case 1
  then show ?case by simp
next
  case (2 x)
  then show ?case
    using percent_octets_alphabet [OF unat_code_unit_bound [of x], of c]
    by (auto split: if_splits)
next
  case (3 x x' xs)
  then show ?case
    using percent_octets_alphabet [OF unat_code_unit_bound [of x], of c]
      percent_octets_alphabet [OF surrogate_pair_bound [of x x'], of c]
    by (auto simp: then_append_def split: if_splits sum.splits)
qed

lemma encodeURIComponent_no_dollar:
  "encodeURIComponent s = Inr encoded \<Longrightarrow> 0x24 \<notin> set encoded"
  using encodeURIComponent_alphabet [of s encoded "0x24"]
  by (auto simp: uri_unescaped_def is_ascii_letter_def is_digit_def)

lemma encodeURIComponent_no_separator:
  assumes "encodeURIComponent s = Inr encoded"
  shows "0x26 \<notin> set encoded \<and> 0x3D \<notin> set encoded \<and> 0x23 \<notin> set encoded"
  using encodeURIComponent_alphabet [OF assms, of "0x26"]
    encodeURIComponent_alphabet [OF assms, of "0x3D"]
    encodeURIComponent_alphabet [OF assms, of "0x23"]
  by (auto simp: uri_unescaped_def is_ascii_letter_def is_digit_def)

text \<open>
  It returns on the well-formed strings and throws on the others.
\<close>

lemma surrogates_disjoint: "is_leading_surrogate c \<Longrightarrow> \<not> is_trailing_surrogate c"
  by (auto simp: is_leading_surrogate_def is_trailing_surrogate_def word_le_nat_alt)

lemma surrogate_not_unescaped:
  "is_leading_surrogate c \<or> is_trailing_surrogate c \<Longrightarrow> \<not> uri_unescaped c"
  by (auto simp: is_leading_surrogate_def is_trailing_surrogate_def uri_unescaped_def
      is_ascii_letter_def is_digit_def word_le_nat_alt)

lemma encodeURIComponent_isWellFormed:
  "(\<exists>encoded. encodeURIComponent s = Inr encoded) = isWellFormed s"
proof (induction s rule: encodeURIComponent.induct)
  case 1
  then show ?case by simp
next
  case (2 c)
  then show ?case
    using surrogate_not_unescaped [of c] by auto
next
  case (3 c c' cs)
  show ?case
  proof (cases "uri_unescaped c")
    case True
    with surrogate_not_unescaped [of c]
    have "\<not> is_leading_surrogate c" and "\<not> is_trailing_surrogate c" by auto
    with "3.IH"(1) [OF True] True show ?thesis
      by (auto simp: then_append_def split: sum.splits)
  next
    case False
    show ?thesis
    proof (cases "is_trailing_surrogate c")
      case True
      with False surrogates_disjoint [of c] show ?thesis by auto
    next
      case not_trailing: False
      show ?thesis
      proof (cases "is_leading_surrogate c")
        case True
        show ?thesis
        proof (cases "is_trailing_surrogate c'")
          case paired: True
          from "3.IH"(2) [OF False not_trailing True paired] False not_trailing True paired
          show ?thesis
            by (auto simp: then_append_def split: sum.splits)
        next
          case unpaired: False
          with False not_trailing True show ?thesis by auto
        qed
      next
        case not_leading: False
        from "3.IH"(3) [OF False not_trailing not_leading] False not_trailing not_leading
        show ?thesis
          by (auto simp: then_append_def split: sum.splits)
      qed
    qed
  qed
qed

lemma get_substitution_literal:
  "0x24 \<notin> set replacement \<Longrightarrow> get_substitution m p f replacement = replacement"
  by (induction m p f replacement rule: get_substitution.induct) auto

lemma prefix_of_longer:
  "prefix xs (ys @ zs) \<Longrightarrow> length xs \<le> length ys \<Longrightarrow> prefix xs ys"
  by (auto simp: prefix_append)

text \<open>
  \<open>replace\<close> acts on the first occurrence of the pattern, and a string that contains
  the pattern has one.
\<close>

lemma first_occurrence_exists:
  assumes "sublist pat s"
  shows "\<exists>pre post. s = pre @ pat @ post \<and> (pat = [] \<or> \<not> sublist pat (pre @ butlast pat))"
  using assms
proof (induction s)
  case Nil
  then show ?case by auto
next
  case (Cons a s)
  show ?case
  proof (cases "prefix pat (a # s)")
    case True
    then obtain post where "a # s = pat @ post" by (auto simp: prefix_def)
    moreover have "pat = [] \<or> \<not> sublist pat (butlast pat)"
      by (cases pat rule: rev_cases) (auto dest: sublist_length_le)
    ultimately show ?thesis by (intro exI [of _ "[]"] exI [of _ post]) simp
  next
    case False
    with Cons.prems have "sublist pat s" by (simp add: sublist_Cons_right)
    from Cons.IH [OF this] obtain pre post where
      s: "s = pre @ pat @ post" and f: "pat = [] \<or> \<not> sublist pat (pre @ butlast pat)"
      by blast
    from False have ne: "pat \<noteq> []" by auto
    have "\<not> prefix pat (a # pre @ butlast pat)"
    proof
      assume "prefix pat (a # pre @ butlast pat)"
      then have "prefix pat ((a # pre @ butlast pat) @ (last pat # post))"
        by (rule prefix_prefix)
      moreover have "(a # pre @ butlast pat) @ (last pat # post) = a # s"
        unfolding s using ne
        by (metis append_Cons append_Nil append_assoc append_butlast_last_id)
      ultimately have "prefix pat (a # s)" by (simp only:)
      with False show False by contradiction
    qed
    with f ne have "\<not> sublist pat ((a # pre) @ butlast pat)"
      by (simp add: sublist_Cons_right)
    with s show ?thesis by (intro exI [of _ "a # pre"] exI [of _ post]) simp
  qed
qed

lemma string_index_of_first:
  assumes "\<not> sublist pat (pre @ butlast pat)"
  shows "string_index_of pat (pre @ pat @ post) = Some (length pre)"
  using assms
proof (induction pre)
  case Nil
  have "prefix pat (pat @ post)" by simp
  then show ?case by (cases "pat @ post") auto
next
  case (Cons a pre)
  from Cons.prems have ne: "pat \<noteq> []" by auto
  from Cons.prems have np: "\<not> prefix pat (a # pre @ butlast pat)"
    and ns: "\<not> sublist pat (pre @ butlast pat)"
    by (auto simp: sublist_Cons_right)
  have "\<not> prefix pat (a # pre @ pat @ post)"
  proof
    assume p: "prefix pat (a # pre @ pat @ post)"
    have "a # pre @ pat @ post = (a # pre @ butlast pat) @ (last pat # post)"
      using ne by simp
    with p have "prefix pat ((a # pre @ butlast pat) @ (last pat # post))" by simp
    moreover have "length pat \<le> length (a # pre @ butlast pat)" using ne by simp
    ultimately have "prefix pat (a # pre @ butlast pat)" by (rule prefix_of_longer)
    with np show False by contradiction
  qed
  with Cons.IH [OF ns] show ?case by simp
qed

lemma string_replace_first:
  assumes "\<not> sublist pat (pre @ butlast pat)" "0x24 \<notin> set replacement"
  shows "string_replace (pre @ pat @ post) pat replacement = pre @ replacement @ post"
  using string_index_of_first [OF assms(1), of post] assms(2)
  by (simp add: string_replace_def get_substitution_literal)

subsection \<open>Bang resolution\<close>

text \<open>
  The two ways the regular expression matches, read off \<open>bang_regex\<close>.
\<close>

lemma white_space_not_letter: "is_white_space c \<Longrightarrow> \<not> is_ascii_letter c"
  by (auto simp: is_white_space_def is_ascii_letter_def is_line_terminator_def word_le_nat_alt)

lemma bang_regex_remainder:
  assumes "trigger \<noteq> []" "list_all is_ascii_letter trigger" "is_white_space w"
    "list_all not_line_terminator remainder"
  shows "bang_regex (js ''!'' @ trigger @ [w] @ remainder) = Some (trigger, Some remainder)"
proof -
  have nl: "\<not> is_ascii_letter w" using assms(3) by (rule white_space_not_letter)
  have all: "\<And>x. x \<in> set trigger \<Longrightarrow> is_ascii_letter x"
    using assms(2) by (simp add: list_all_iff)
  have tw: "takeWhile is_ascii_letter (trigger @ w # remainder) = trigger"
    using nl all by (simp add: takeWhile_tail)
  have dw: "dropWhile is_ascii_letter (trigger @ w # remainder) = w # remainder"
    using nl all by simp
  show ?thesis
    using assms by (simp add: bang_regex_def js_def tw dw)
qed

lemma bang_regex_trigger_only:
  assumes "trigger \<noteq> []" and "list_all is_ascii_letter trigger"
  shows "bang_regex (js ''!'' @ trigger) = Some (trigger, None)"
proof -
  have t: "takeWhile is_ascii_letter trigger = trigger"
    and d: "dropWhile is_ascii_letter trigger = []"
    using assms(2) by (simp_all add: list_all_iff)
  show ?thesis
    using assms(1) by (simp add: bang_regex_def js_def t d)
qed

lemma bang_regex_shape:
  assumes "bang_regex q = Some (cmd, group2)"
  shows "cmd \<noteq> [] \<and> list_all is_ascii_letter cmd
       \<and> (case group2 of
             None \<Rightarrow> q = js ''!'' @ cmd
           | Some remainder \<Rightarrow>
               \<exists>w. is_white_space w \<and> list_all not_line_terminator remainder
                  \<and> q = js ''!'' @ cmd @ [w] @ remainder)"
proof -
  from assms obtain rest where q: "q = 0x21 # rest"
    by (auto simp: bang_regex_def split: list.splits if_splits)
  define letters where "letters = takeWhile is_ascii_letter rest"
  define tail where "tail = dropWhile is_ascii_letter rest"
  have r: "rest = letters @ tail"
    by (simp add: letters_def tail_def)
  have l: "list_all is_ascii_letter letters"
    unfolding letters_def list_all_iff by (meson set_takeWhileD)
  have b: "bang_regex q =
      (if letters = [] then None
       else (case tail of
               [] \<Rightarrow> Some (letters, None)
             | w # search \<Rightarrow>
                 if is_white_space w \<and> list_all not_line_terminator search
                 then Some (letters, Some search) else None))"
    unfolding q letters_def tail_def by (simp add: bang_regex_def Let_def)
  show ?thesis
  proof (cases tail)
    case Nil
    with assms b have "cmd = letters" "group2 = None" "letters \<noteq> []"
      by (auto split: if_splits)
    with l r Nil show ?thesis
      unfolding q by (simp add: js_def)
  next
    case (Cons w search)
    with assms b have "cmd = letters" "group2 = Some search" "letters \<noteq> []"
      "is_white_space w" "list_all not_line_terminator search"
      by (auto split: if_splits)
    with l r Cons show ?thesis
      unfolding q by (auto simp: js_def)
  qed
qed

text \<open>
  C1: a query \<open>!trigger\<close>, one white-space code unit and a non-empty remainder (well
  formed, and with no line terminator, as \<open>.*\<close> requires), whose trigger is in the Bang
  Table with a template that contains the placeholder \<open>{{{s}}}\<close>: \<open>matchBang\<close> returns
  \<open>true\<close> and assigns \<open>window.location.href\<close> the template with the (first)
  placeholder replaced by \<open>encodeURIComponent(remainder)\<close>.
\<close>

theorem bang_redirect:
  assumes "trigger \<noteq> []" and "list_all is_ascii_letter trigger" and "is_white_space w"
    and "remainder \<noteq> []" and "list_all not_line_terminator remainder"
    and "isWellFormed remainder"
    and "find (\<lambda>item. t item = trigger) bangs = Some result"
    and "u result = pre @ querySymbol @ post"
    and "\<not> sublist querySymbol (pre @ butlast querySymbol)"
  shows "\<exists>encoded. encodeURIComponent remainder = Inr encoded
           \<and> matchBang bangs (js ''!'' @ trigger @ [w] @ remainder) win
               = Inr (True, assign_href (pre @ encoded @ post) win)"
proof -
  from assms(6) obtain encoded where e: "encodeURIComponent remainder = Inr encoded"
    using encodeURIComponent_isWellFormed [of remainder] by blast
  have m: "bang_regex (js ''!'' @ trigger @ [w] @ remainder) = Some (trigger, Some remainder)"
    using assms(1,2,3,5) by (rule bang_regex_remainder)
  have r: "string_replace (u result) querySymbol encoded = pre @ encoded @ post"
    using string_replace_first [OF assms(9) encodeURIComponent_no_dollar [OF e], of post]
    by (simp add: assms(8))
  have "matchBang bangs (js ''!'' @ trigger @ [w] @ remainder) win
          = Inr (True, assign_href (pre @ encoded @ post) win)"
    unfolding matchBang_def m using assms(4,7) e r by simp
  with e show ?thesis by blast
qed

text \<open>
  The scenario of C1: \<open>!gh nilch\<close> with the template
  \<open>https://github.com/search?q={{{s}}}\<close> redirects to
  \<open>https://github.com/search?q=nilch\<close>.
\<close>

theorem bang_redirect_gh_nilch:
  "matchBang
     [\<lparr>t = js ''gh'', d = js ''github.com'', u = js ''https://github.com/search?q={{{s}}}''\<rparr>]
     (js ''!gh nilch'')
     \<lparr>location_href = js ''https://nilch.org/'', navigations = [], location_url = None\<rparr>
   = Inr (True, \<lparr>location_href = js ''https://nilch.org/'',
                 navigations = [Assign (js ''https://github.com/search?q=nilch'')],
                 location_url = None\<rparr>)"
proof -
  let ?gh = "\<lparr>t = js ''gh'', d = js ''github.com'', u = js ''https://github.com/search?q={{{s}}}''\<rparr>"
  have h1: "js ''gh'' \<noteq> []" by (simp add: js_def)
  have h2: "list_all is_ascii_letter (js ''gh'')" by (simp add: js_def is_ascii_letter_def)
  have h3: "is_white_space 0x20" by (simp add: is_white_space_def)
  have h4: "js ''nilch'' \<noteq> []" by (simp add: js_def)
  have h5: "list_all not_line_terminator (js ''nilch'')"
    by (simp add: js_def not_line_terminator_def is_line_terminator_def)
  have h6: "isWellFormed (js ''nilch'')"
    by (simp add: js_def is_leading_surrogate_def is_trailing_surrogate_def)
  have h7: "find (\<lambda>item. t item = js ''gh'') [?gh] = Some ?gh" by simp
  have h8: "u ?gh = js ''https://github.com/search?q='' @ querySymbol @ []"
    by (simp add: js_def querySymbol_def)
  have h9: "\<not> sublist querySymbol (js ''https://github.com/search?q='' @ butlast querySymbol)"
    by (simp add: js_def querySymbol_def sublist_Cons_right)
  have e: "encodeURIComponent (js ''nilch'') = Inr (js ''nilch'')"
    by (simp add: js_def uri_unescaped_def is_ascii_letter_def then_append_def)
  have q: "js ''!gh nilch'' = js ''!'' @ js ''gh'' @ [0x20] @ js ''nilch''" by (simp add: js_def)
  show ?thesis
    using bang_redirect [OF h1 h2 h3 h4 h5 h6 h7 h8 h9,
        of "\<lparr>location_href = js ''https://nilch.org/'', navigations = [], location_url = None\<rparr>"]
    unfolding q e by (simp add: assign_href_def js_def)
qed

text \<open>
  C7: a well-formed query that has the shape of a bang (the regular expression matches,
  with trigger \<open>cmd\<close>) whose trigger is not in the Bang Table: \<open>matchBang\<close> returns
  \<open>false\<close> and navigates nowhere, and \<open>handleSearch\<close> navigates to \<open>?q=\<close> followed
  by the encoding of the whole trimmed query, whose first character is the \<open>!\<close>, kept as
  it is.
\<close>

theorem bang_absent_falls_through:
  assumes "bang_regex q = Some (cmd, group2)"
    and "cmd \<notin> set (map t bangs)"
    and "trim searchInput_value = q"
    and "isWellFormed q"
  shows "matchBang bangs q win = Inr (False, win)
       \<and> (\<exists>encoded. encodeURIComponent q = Inr encoded \<and> hd encoded = 0x21
            \<and> handleSearch bangs searchInput_value win
                = Inr (False, assign_href (js ''?q='' @ encoded) win))
       \<and> hd q = 0x21"
proof -
  from assms(4) obtain encoded where enc: "encodeURIComponent q = Inr encoded"
    using encodeURIComponent_isWellFormed [of q] by blast
  have f: "find (\<lambda>item. t item = cmd) bangs = None"
    using assms(2) by (auto simp: find_None_iff)
  have m: "matchBang bangs q win = Inr (False, win)"
    by (simp add: matchBang_def assms(1) f)
  obtain rest where q: "q = 0x21 # rest"
    using assms(1) by (auto simp: bang_regex_def split: list.splits if_splits)
  have e: "hd encoded = 0x21"
    using enc unfolding q
    by (cases rest) (auto simp: uri_unescaped_def then_append_def split: sum.splits)
  have "handleSearch bangs searchInput_value win
          = Inr (False, assign_href (js ''?q='' @ encoded) win)"
    using m q enc assms(3) by (simp add: handleSearch_def)
  with m q e enc show ?thesis by auto
qed

text \<open>
  An instance of C7: \<open>!zz nilch\<close>, typed with spaces around it, against a table that
  holds \<open>gh\<close> only.
\<close>

theorem bang_absent_witness:
  "handleSearch
     [\<lparr>t = js ''gh'', d = js ''github.com'', u = js ''https://github.com/search?q={{{s}}}''\<rparr>]
     (js '' !zz nilch '')
     \<lparr>location_href = js ''https://nilch.org/'', navigations = [], location_url = None\<rparr>
   = Inr (False, \<lparr>location_href = js ''https://nilch.org/'',
                  navigations = [Assign (js ''?q=!zz%20nilch'')], location_url = None\<rparr>)"
proof -
  have h1: "bang_regex (js ''!zz nilch'') = Some (js ''zz'', Some (js ''nilch''))"
    by (simp add: bang_regex_def js_def is_ascii_letter_def is_white_space_def
        not_line_terminator_def is_line_terminator_def)
  have h2: "js ''zz'' \<notin> set (map t
      [\<lparr>t = js ''gh'', d = js ''github.com'', u = js ''https://github.com/search?q={{{s}}}''\<rparr>])"
    by (simp add: js_def)
  have h3: "trim (js '' !zz nilch '') = js ''!zz nilch''"
    by (simp add: trim_def js_def is_white_space_def is_line_terminator_def)
  have h4: "isWellFormed (js ''!zz nilch'')"
    by (simp add: js_def is_leading_surrogate_def is_trailing_surrogate_def)
  have e: "encodeURIComponent (js ''!zz nilch'') = Inr (js ''!zz%20nilch'')"
    by (simp add: js_def uri_unescaped_def is_ascii_letter_def is_digit_def then_append_def
        is_leading_surrogate_def is_trailing_surrogate_def percent_octets_def utf8_octets_def
        percent_octet_def hex_digit_def)
  show ?thesis
    using bang_absent_falls_through [OF h1 h2 h3 h4,
        of "\<lparr>location_href = js ''https://nilch.org/'', navigations = [], location_url = None\<rparr>"]
    unfolding e by (simp add: assign_href_def js_def)
qed

subsection \<open>The sentinel responses\<close>

lemma noresults_not_json: "JSON_parse host_parse (js ''noresults'') = Inl (SyntaxError (js ''noresults''))"
  by (simp add: JSON_parse_def json_value_start_def json_white_space_def js_def is_digit_def)

lemma noquery_not_json: "JSON_parse host_parse (js ''noquery'') = Inl (SyntaxError (js ''noquery''))"
  by (simp add: JSON_parse_def json_value_start_def json_white_space_def js_def is_digit_def)

lemma noresults_noquery: "js ''noresults'' \<noteq> js ''noquery''"
  by (simp add: js_def)

lemma results_main_noresults_unmarked:
  assumes "failed p \<noteq> js ''true''"
  shows "results_main h urlParams p (js ''noresults'') st =
           st\<lparr>location_url :=
                 Some ((case location_url st of None \<Rightarrow> js ''undefined'' | Some x \<Rightarrow> x)
                       @ js ''&failed=true''),
              results_innerHTML :=
                 js ''<p>Error loading search results. Please try again.<br>''
                 @ error_string h (SyntaxError (js ''noresults'')) @ js ''</p>'',
              results_children := []\<rparr>"
  using assms
  by (simp add: results_main_def results_catch_def results_try_def results_sentinels_def
      noresults_noquery noresults_not_json set_results_innerHTML_def)

lemma results_parameters_cats:
  "results_js_parameters [(js ''q'', js ''cats'')] =
     Inr \<lparr>safeSearch = js ''strict'', query = Some (js ''cats''), encodedQuery = js ''cats'',
          page = Integer 0, failed = js ''false'', language = js ''en-GB'',
          engine = js ''duckduckgo''\<rparr>"
  by (simp add: results_js_parameters_def URLSearchParams_get_def or_default_def
      string_of_nullable_def js_def uri_unescaped_def is_ascii_letter_def then_append_def
      parseInt_def is_white_space_def is_line_terminator_def is_radix_digit_def digit_value_def
      is_digit_def digits_value_def number_of_integer_def)

text \<open>
  C2: the first attempt of a web search (\<open>?q=cats\<close>, no \<open>failed\<close> parameter) answered
  by \<open>noresults\<close>. The script writes \<open>window.location.url\<close>, which is not the
  \<open>href\<close>: no navigation is requested. It then goes on to \<open>JSON.parse\<close>, which throws
  on \<open>noresults\<close>, and the \<open>catch\<close> block prints the error message.
\<close>

theorem noresults_first_attempt_prints_error:
  "results_js_parameters [(js ''q'', js ''cats'')] =
     Inr \<lparr>safeSearch = js ''strict'', query = Some (js ''cats''), encodedQuery = js ''cats'',
          page = Integer 0, failed = js ''false'', language = js ''en-GB'',
          engine = js ''duckduckgo''\<rparr>
   \<and> results_main h [(js ''q'', js ''cats'')]
       \<lparr>safeSearch = js ''strict'', query = Some (js ''cats''), encodedQuery = js ''cats'',
        page = Integer 0, failed = js ''false'', language = js ''en-GB'',
        engine = js ''duckduckgo''\<rparr>
       (js ''noresults'')
       \<lparr>location_href = js ''https://nilch.org/results.html?q=cats'', navigations = [],
        location_url = None, results_innerHTML = [], results_children = [],
        pagination_containers = [], infobox_display = js ''none'',
        infobox_title_innerHTML = [], infobox_children = []\<rparr>
     = \<lparr>location_href = js ''https://nilch.org/results.html?q=cats'', navigations = [],
        location_url = Some (js ''undefined&failed=true''),
        results_innerHTML =
          js ''<p>Error loading search results. Please try again.<br>''
          @ error_string h (SyntaxError (js ''noresults'')) @ js ''</p>'',
        results_children = [], pagination_containers = [], infobox_display = js ''none'',
        infobox_title_innerHTML = [], infobox_children = []\<rparr>"
proof -
  have "js ''false'' \<noteq> js ''true''" by (simp add: js_def)
  then show ?thesis
    by (simp add: results_parameters_cats results_main_noresults_unmarked) (simp add: js_def)
qed

text \<open>
  C3: \<open>noresults\<close> when the page was loaded with \<open>failed=true\<close>: the rate-limit
  message is printed, with a link to \<open>https://duckduckgo.com/\<close> followed by the encoded
  query, and no navigation is requested.
\<close>

theorem noresults_with_marker_prints_fallback:
  assumes "results_js_parameters urlParams = Inr p"
    and "URLSearchParams_get urlParams (js ''failed'') = Some (js ''true'')"
  shows "results_main h urlParams p (js ''noresults'') st =
           st\<lparr>results_innerHTML :=
                 js ''<h1>Woah!</h1><p>nilch has been getting unexpected amounts of traffic, thousands of searches within an hour or two! Unfortunately, this means API limits have been surpassed. <br><br><b>This should be fixed within one day</b>.</p><br><a href='https://duckduckgo.com/''
                 @ encodedQuery p
                 @ [0x27] @ js ''>Search the same query on DuckDuckGo</a> until then?'',
              results_children := []\<rparr>
       \<and> encodeURIComponent (string_of_nullable (query p)) = Inr (encodedQuery p)
       \<and> navigations (results_main h urlParams p (js ''noresults'') st) = navigations st"
proof -
  have t: "js ''true'' \<noteq> []" by (simp add: js_def)
  from assms have f: "failed p = js ''true''"
    by (auto simp: results_js_parameters_def or_default_def t split: sum.splits)
  from assms(1) have e: "encodeURIComponent (string_of_nullable (query p)) = Inr (encodedQuery p)"
    by (auto simp: results_js_parameters_def split: sum.splits)
  have m: "results_main h urlParams p (js ''noresults'') st =
           st\<lparr>results_innerHTML :=
                 js ''<h1>Woah!</h1><p>nilch has been getting unexpected amounts of traffic, thousands of searches within an hour or two! Unfortunately, this means API limits have been surpassed. <br><br><b>This should be fixed within one day</b>.</p><br><a href='https://duckduckgo.com/''
                 @ encodedQuery p
                 @ [0x27] @ js ''>Search the same query on DuckDuckGo</a> until then?'',
              results_children := []\<rparr>"
    by (simp add: results_main_def results_catch_def results_try_def results_sentinels_def
        noresults_noquery f e set_results_innerHTML_def)
  show ?thesis by (simp add: m e)
qed

text \<open>
  An instance of C3: \<open>?q=cats&failed=true\<close>.
\<close>

theorem noresults_with_marker_witness:
  "\<forall>h. results_main h [(js ''q'', js ''cats''), (js ''failed'', js ''true'')]
       \<lparr>safeSearch = js ''strict'', query = Some (js ''cats''), encodedQuery = js ''cats'',
        page = Integer 0, failed = js ''true'', language = js ''en-GB'',
        engine = js ''duckduckgo''\<rparr>
       (js ''noresults'')
       \<lparr>location_href = js ''https://nilch.org/results.html?q=cats&failed=true'',
        navigations = [], location_url = None, results_innerHTML = [], results_children = [],
        pagination_containers = [], infobox_display = js ''none'',
        infobox_title_innerHTML = [], infobox_children = []\<rparr>
     = \<lparr>location_href = js ''https://nilch.org/results.html?q=cats&failed=true'',
        navigations = [], location_url = None,
        results_innerHTML =
          js ''<h1>Woah!</h1><p>nilch has been getting unexpected amounts of traffic, thousands of searches within an hour or two! Unfortunately, this means API limits have been surpassed. <br><br><b>This should be fixed within one day</b>.</p><br><a href='https://duckduckgo.com/cats'>Search the same query on DuckDuckGo</a> until then?'',
        results_children = [], pagination_containers = [], infobox_display = js ''none'',
        infobox_title_innerHTML = [], infobox_children = []\<rparr>"
proof
  fix h
  let ?ps = "[(js ''q'', js ''cats''), (js ''failed'', js ''true'')]"
  have h1: "results_js_parameters ?ps =
     Inr \<lparr>safeSearch = js ''strict'', query = Some (js ''cats''), encodedQuery = js ''cats'',
          page = Integer 0, failed = js ''true'', language = js ''en-GB'',
          engine = js ''duckduckgo''\<rparr>"
    by (simp add: results_js_parameters_def URLSearchParams_get_def or_default_def
      string_of_nullable_def js_def uri_unescaped_def is_ascii_letter_def then_append_def
      parseInt_def is_white_space_def is_line_terminator_def is_radix_digit_def digit_value_def
      is_digit_def digits_value_def number_of_integer_def)
  have h2: "URLSearchParams_get ?ps (js ''failed'') = Some (js ''true'')"
    by (simp add: URLSearchParams_get_def js_def)
  show "results_main h ?ps
       \<lparr>safeSearch = js ''strict'', query = Some (js ''cats''), encodedQuery = js ''cats'',
        page = Integer 0, failed = js ''true'', language = js ''en-GB'',
        engine = js ''duckduckgo''\<rparr>
       (js ''noresults'')
       \<lparr>location_href = js ''https://nilch.org/results.html?q=cats&failed=true'',
        navigations = [], location_url = None, results_innerHTML = [], results_children = [],
        pagination_containers = [], infobox_display = js ''none'',
        infobox_title_innerHTML = [], infobox_children = []\<rparr>
     = \<lparr>location_href = js ''https://nilch.org/results.html?q=cats&failed=true'',
        navigations = [], location_url = None,
        results_innerHTML =
          js ''<h1>Woah!</h1><p>nilch has been getting unexpected amounts of traffic, thousands of searches within an hour or two! Unfortunately, this means API limits have been surpassed. <br><br><b>This should be fixed within one day</b>.</p><br><a href='https://duckduckgo.com/cats'>Search the same query on DuckDuckGo</a> until then?'',
        results_children = [], pagination_containers = [], infobox_display = js ''none'',
        infobox_title_innerHTML = [], infobox_children = []\<rparr>"
    using noresults_with_marker_prints_fallback [OF h1 h2, of h]
    by (simp add: js_def)
qed

text \<open>
  C8: on \<open>noresults\<close> the images script prints its message and requests no navigation;
  the videos script calls \<open>location.reload()\<close>, whatever the parameters and the state
  of the page, and writes neither the URL nor a marker. (It then goes on to
  \<open>JSON.parse\<close>, so the error message is in \<open>results\<close> while the page reloads.)
\<close>

theorem noresults_images_and_videos:
  "images_main h (js ''noresults'') ist =
     ist\<lparr>results_innerHTML := js ''<p>There was an error, please try again: noresults</p>'',
         results_children := []\<rparr>
   \<and> navigations (images_main h (js ''noresults'') ist) = navigations ist
   \<and> navigations (videos_main h p (js ''noresults'') vst) = navigations vst @ [Reload]
   \<and> location_href (videos_main h p (js ''noresults'') vst) = location_href vst
   \<and> location_url (videos_main h p (js ''noresults'') vst) = location_url vst
   \<and> results_innerHTML (videos_main h p (js ''noresults'') vst)
       = js ''<p>Error loading search results. Please try again.<br>''
         @ error_string h (SyntaxError (js ''noresults'')) @ js ''</p>''"
  by (simp add: images_main_def images_try_def videos_main_def videos_try_def noresults_noquery
      noresults_not_json set_results_innerHTML_def reload_def)

subsection \<open>The request of the results page\<close>

lemma parseInt_zero: "parseInt (js ''0'') = Integer 0"
  by (simp add: parseInt_def js_def is_white_space_def is_line_terminator_def is_radix_digit_def
      digit_value_def is_digit_def digits_value_def number_of_integer_def)

lemma nat_string_digit: "n < 10 \<Longrightarrow> nat_string n = [0x30 + of_nat n]"
  by (subst nat_string.simps) simp

lemma number_string_zero: "number_string h (Integer 0) = js ''0''"
  by (simp add: number_string_def nat_string_digit js_def)

text \<open>
  What \<open>URLSearchParams\<close> reads back from the request made with the default values.
\<close>

lemma split_on_first:
  "sep \<notin> set xs \<Longrightarrow> split_on sep (xs @ sep # ys) = xs # split_on sep ys"
  by (induction xs) auto

lemma location_search_of_query:
  assumes "0x3F \<notin> set base" and "0x23 \<notin> set base" and "0x23 \<notin> set q" and "q \<noteq> []"
  shows "location_search (base @ [0x3F] @ q) = [0x3F] @ q"
proof -
  have "takeWhile (\<lambda>c. c \<noteq> 0x23) (base @ [0x3F] @ q) = base @ [0x3F] @ q"
    using assms(2,3) by (auto simp: takeWhile_eq_all_conv)
  moreover have "dropWhile (\<lambda>c. c \<noteq> 0x3F) (base @ [0x3F] @ q) = [0x3F] @ q"
  proof -
    have "\<forall>x\<in>set base. x \<noteq> 0x3F"
      using assms(1) by auto
    then show ?thesis
      by (simp add: dropWhile_append2)
  qed
  ultimately have "location_search (base @ [0x3F] @ q)
                     = (if length ([0x3F] @ q) \<le> 1 then [] else [0x3F] @ q)"
    unfolding location_search_def Let_def by (simp only:)
  then show ?thesis
    using assms(4) by (cases q) simp_all
qed

lemma form_decode_ascii_names:
  "form_decode h (js ''q'') = js ''q''"
  "form_decode h (js ''safe'') = js ''safe''"
  "form_decode h (js ''strict'') = js ''strict''"
  "form_decode h (js ''page'') = js ''page''"
  "form_decode h (js ''0'') = js ''0''"
  "form_decode h (js ''language'') = js ''language''"
  "form_decode h (js ''en-GB'') = js ''en-GB''"
  "form_decode h (js ''engine'') = js ''engine''"
  "form_decode h (js ''duckduckgo'') = js ''duckduckgo''"
  by (simp_all add: form_decode_def js_def utf8_encode_def utf8_octets_def
      is_leading_surrogate_def is_trailing_surrogate_def)

lemma URLSearchParams_of_search:
  "URLSearchParams h ([0x3F] @ s)
     = map (\<lambda>sq. (form_decode h (takeWhile (\<lambda>c. c \<noteq> 0x3D) sq),
                     form_decode h (drop 1 (dropWhile (\<lambda>c. c \<noteq> 0x3D) sq))))
         (filter (\<lambda>sq. sq \<noteq> []) (split_on 0x26 s))"
  by (simp add: URLSearchParams_def)

lemma default_request_parameters:
  assumes "0x26 \<notin> set encoded" and "0x23 \<notin> set encoded"
  shows "URLSearchParams h
           (location_search
              (js ''https://unmappedstack.pythonanywhere.com/api/search?q='' @ encoded
               @ js ''&safe=strict&page=0&language=en-GB&engine=duckduckgo''))
         = [(js ''q'', form_decode h encoded), (js ''safe'', js ''strict''),
            (js ''page'', js ''0''), (js ''language'', js ''en-GB''),
            (js ''engine'', js ''duckduckgo'')]"
proof -
  let ?base = "js ''https://unmappedstack.pythonanywhere.com/api/search''"
  let ?rest = "js ''safe=strict&page=0&language=en-GB&engine=duckduckgo''"
  have u: "js ''https://unmappedstack.pythonanywhere.com/api/search?q='' @ encoded
               @ js ''&safe=strict&page=0&language=en-GB&engine=duckduckgo''
           = ?base @ [0x3F] @ (js ''q='' @ encoded @ 0x26 # ?rest)"
    by (simp add: js_def)
  have b: "0x3F \<notin> set ?base" "0x23 \<notin> set ?base"
    by (simp_all add: js_def)
  have q: "0x23 \<notin> set (js ''q='' @ encoded @ 0x26 # ?rest)"
    "js ''q='' @ encoded @ 0x26 # ?rest \<noteq> []"
    using assms(2) by (simp_all add: js_def)
  have l: "location_search (?base @ [0x3F] @ (js ''q='' @ encoded @ 0x26 # ?rest))
             = [0x3F] @ (js ''q='' @ encoded @ 0x26 # ?rest)"
    using b q by (rule location_search_of_query)
  have n: "0x26 \<notin> set (js ''q='' @ encoded)"
    using assms(1) by (simp add: js_def)
  have s: "split_on 0x26 ((js ''q='' @ encoded) @ 0x26 # ?rest)
             = (js ''q='' @ encoded) # split_on 0x26 ?rest"
    using n by (rule split_on_first)
  have r: "split_on 0x26 ?rest
             = [js ''safe=strict'', js ''page=0'', js ''language=en-GB'', js ''engine=duckduckgo'']"
    by (simp add: js_def)
  have k: "takeWhile (\<lambda>c. c \<noteq> 0x3D) (js ''q='' @ encoded) = js ''q''"
    "drop 1 (dropWhile (\<lambda>c. c \<noteq> 0x3D) (js ''q='' @ encoded)) = encoded"
    by (simp_all add: js_def)
  have e: "filter (\<lambda>sq. sq \<noteq> []) ((js ''q='' @ encoded) # split_on 0x26 ?rest)
             = [js ''q='' @ encoded, js ''safe=strict'', js ''page=0'', js ''language=en-GB'',
                js ''engine=duckduckgo'']"
    unfolding r by (simp add: js_def)
  have m: "takeWhile (\<lambda>c. c \<noteq> 0x3D) (js ''safe=strict'') = js ''safe''"
    "drop 1 (dropWhile (\<lambda>c. c \<noteq> 0x3D) (js ''safe=strict'')) = js ''strict''"
    "takeWhile (\<lambda>c. c \<noteq> 0x3D) (js ''page=0'') = js ''page''"
    "drop 1 (dropWhile (\<lambda>c. c \<noteq> 0x3D) (js ''page=0'')) = js ''0''"
    "takeWhile (\<lambda>c. c \<noteq> 0x3D) (js ''language=en-GB'') = js ''language''"
    "drop 1 (dropWhile (\<lambda>c. c \<noteq> 0x3D) (js ''language=en-GB'')) = js ''en-GB''"
    "takeWhile (\<lambda>c. c \<noteq> 0x3D) (js ''engine=duckduckgo'') = js ''engine''"
    "drop 1 (dropWhile (\<lambda>c. c \<noteq> 0x3D) (js ''engine=duckduckgo'')) = js ''duckduckgo''"
    by (simp_all add: js_def)
  have p: "URLSearchParams h ([0x3F] @ (js ''q='' @ encoded @ 0x26 # ?rest))
         = [(js ''q'', form_decode h encoded), (js ''safe'', js ''strict''),
            (js ''page'', js ''0''), (js ''language'', js ''en-GB''),
            (js ''engine'', js ''duckduckgo'')]"
    unfolding URLSearchParams_of_search
    by (simp only: append_assoc [symmetric] s e list.map k m form_decode_ascii_names)
  show ?thesis
    unfolding u l using p by simp
qed

text \<open>
  C9: a parameter that is absent takes its default (\<open>strict\<close>, \<open>0\<close>, \<open>en-GB\<close>,
  \<open>duckduckgo\<close>, \<open>false\<close>); the request URL is made of \<open>q\<close>, \<open>safe\<close>, \<open>page\<close>,
  \<open>language\<close> and \<open>engine\<close>, in that order, the encoded query holding no separator; with
  \<open>safe\<close>, \<open>page\<close>, \<open>lang\<close> and \<open>engine\<close> all absent it is
  \<open>...?q=<query>&safe=strict&page=0&language=en-GB&engine=duckduckgo\<close>, whose query
  string holds these five parameters and no other.
\<close>

theorem results_request_defaults:
  assumes "results_js_parameters urlParams = Inr p"
  shows "(URLSearchParams_get urlParams (js ''safe'') = None \<longrightarrow> safeSearch p = js ''strict'')
       \<and> (URLSearchParams_get urlParams (js ''page'') = None \<longrightarrow> page p = Integer 0)
       \<and> (URLSearchParams_get urlParams (js ''lang'') = None \<longrightarrow> language p = js ''en-GB'')
       \<and> (URLSearchParams_get urlParams (js ''engine'') = None \<longrightarrow> engine p = js ''duckduckgo'')
       \<and> (URLSearchParams_get urlParams (js ''failed'') = None \<longrightarrow> failed p = js ''false'')
       \<and> encodeURIComponent (string_of_nullable (URLSearchParams_get urlParams (js ''q'')))
           = Inr (encodedQuery p)
       \<and> 0x26 \<notin> set (encodedQuery p) \<and> 0x3D \<notin> set (encodedQuery p) \<and> 0x23 \<notin> set (encodedQuery p)
       \<and> results_request_url h p
           = js ''https://unmappedstack.pythonanywhere.com/api/search?q='' @ encodedQuery p
             @ js ''&safe='' @ safeSearch p @ js ''&page='' @ number_string h (page p)
             @ js ''&language='' @ language p @ js ''&engine='' @ engine p
       \<and> (URLSearchParams_get urlParams (js ''safe'') = None
           \<and> URLSearchParams_get urlParams (js ''page'') = None
           \<and> URLSearchParams_get urlParams (js ''lang'') = None
           \<and> URLSearchParams_get urlParams (js ''engine'') = None
           \<longrightarrow> results_request_url h p
                 = js ''https://unmappedstack.pythonanywhere.com/api/search?q='' @ encodedQuery p
                   @ js ''&safe=strict&page=0&language=en-GB&engine=duckduckgo''
               \<and> URLSearchParams h (location_search (results_request_url h p))
                 = [(js ''q'', form_decode h (encodedQuery p)), (js ''safe'', js ''strict''),
                    (js ''page'', js ''0''), (js ''language'', js ''en-GB''),
                    (js ''engine'', js ''duckduckgo'')])"
proof -
  from assms have e: "encodeURIComponent (string_of_nullable (URLSearchParams_get urlParams (js ''q'')))
           = Inr (encodedQuery p)"
    by (auto simp: results_js_parameters_def split: sum.splits)
  from assms have f:
    "safeSearch p = or_default (URLSearchParams_get urlParams (js ''safe'')) (js ''strict'')"
    "page p = parseInt (or_default (URLSearchParams_get urlParams (js ''page'')) (js ''0''))"
    "language p = or_default (URLSearchParams_get urlParams (js ''lang'')) (js ''en-GB'')"
    "engine p = or_default (URLSearchParams_get urlParams (js ''engine'')) (js ''duckduckgo'')"
    "failed p = or_default (URLSearchParams_get urlParams (js ''failed'')) (js ''false'')"
    by (auto simp: results_js_parameters_def split: sum.splits)
  have u: "results_request_url h p
           = js ''https://unmappedstack.pythonanywhere.com/api/search?q='' @ encodedQuery p
             @ js ''&safe='' @ safeSearch p @ js ''&page='' @ number_string h (page p)
             @ js ''&language='' @ language p @ js ''&engine='' @ engine p"
    by (simp add: results_request_url_def)
  have d: "URLSearchParams_get urlParams (js ''safe'') = None
           \<and> URLSearchParams_get urlParams (js ''page'') = None
           \<and> URLSearchParams_get urlParams (js ''lang'') = None
           \<and> URLSearchParams_get urlParams (js ''engine'') = None
           \<longrightarrow> results_request_url h p
                 = js ''https://unmappedstack.pythonanywhere.com/api/search?q='' @ encodedQuery p
                   @ js ''&safe=strict&page=0&language=en-GB&engine=duckduckgo''"
    unfolding u f by (simp add: or_default_def parseInt_zero number_string_zero) (simp add: js_def)
  have n: "0x26 \<notin> set (encodedQuery p)" "0x23 \<notin> set (encodedQuery p)"
    using encodeURIComponent_no_separator [OF e] by simp_all
  have c: "results_request_url h p
             = js ''https://unmappedstack.pythonanywhere.com/api/search?q='' @ encodedQuery p
               @ js ''&safe=strict&page=0&language=en-GB&engine=duckduckgo''
           \<longrightarrow> URLSearchParams h (location_search (results_request_url h p))
                 = [(js ''q'', form_decode h (encodedQuery p)), (js ''safe'', js ''strict''),
                    (js ''page'', js ''0''), (js ''language'', js ''en-GB''),
                    (js ''engine'', js ''duckduckgo'')]"
    using default_request_parameters [OF n, of h] by simp
  have a: "(URLSearchParams_get urlParams (js ''safe'') = None \<longrightarrow> safeSearch p = js ''strict'')
       \<and> (URLSearchParams_get urlParams (js ''page'') = None \<longrightarrow> page p = Integer 0)
       \<and> (URLSearchParams_get urlParams (js ''lang'') = None \<longrightarrow> language p = js ''en-GB'')
       \<and> (URLSearchParams_get urlParams (js ''engine'') = None \<longrightarrow> engine p = js ''duckduckgo'')
       \<and> (URLSearchParams_get urlParams (js ''failed'') = None \<longrightarrow> failed p = js ''false'')"
    by (simp add: f or_default_def parseInt_zero)
  show ?thesis
    using a e encodeURIComponent_no_separator [OF e] u d c by blast
qed

text \<open>
  An instance of C9: \<open>?q=cats\<close>.
\<close>

theorem results_request_defaults_witness:
  "\<forall>h. results_request_url h
       \<lparr>safeSearch = js ''strict'', query = Some (js ''cats''), encodedQuery = js ''cats'',
        page = Integer 0, failed = js ''false'', language = js ''en-GB'',
        engine = js ''duckduckgo''\<rparr>
     = js ''https://unmappedstack.pythonanywhere.com/api/search?q=cats&safe=strict&page=0&language=en-GB&engine=duckduckgo''"
proof
  fix h
  have g: "URLSearchParams_get [(js ''q'', js ''cats'')] (js ''safe'') = None"
    "URLSearchParams_get [(js ''q'', js ''cats'')] (js ''page'') = None"
    "URLSearchParams_get [(js ''q'', js ''cats'')] (js ''lang'') = None"
    "URLSearchParams_get [(js ''q'', js ''cats'')] (js ''engine'') = None"
    by (simp_all add: URLSearchParams_get_def js_def)
  show "results_request_url h
       \<lparr>safeSearch = js ''strict'', query = Some (js ''cats''), encodedQuery = js ''cats'',
        page = Integer 0, failed = js ''false'', language = js ''en-GB'',
        engine = js ''duckduckgo''\<rparr>
     = js ''https://unmappedstack.pythonanywhere.com/api/search?q=cats&safe=strict&page=0&language=en-GB&engine=duckduckgo''"
    using results_request_defaults [OF results_parameters_cats, of h] g
    by (simp add: js_def number_string_zero)
qed

subsection \<open>Pagination\<close>

text \<open>
  Both scripts make one link for each index from 0 to \<open>totalPages\<close> and mark the one of
  the current page. In the results script the target of link \<open>i\<close> is the current list of
  parameters after \<open>set("page", i)\<close>, which leaves every other pair as it is and holds
  \<open>page\<close> once; in the videos script it is the current URL with \<open>&page=i\<close> appended.
\<close>

lemma createPagination_links_map:
  "createPagination_links i totalPages currentPage urlParams =
     map (\<lambda>k. \<lparr>a_href = js ''?''
                   @ URLSearchParams_toString
                       (URLSearchParams_set urlParams (js ''page'') (nat_string k)),
                 a_textContent = nat_string (k + 1),
                 a_classList =
                   (if strict_equals (Integer (int k)) currentPage
                    then [js ''page-btn'', js ''active''] else [js ''page-btn''])\<rparr>)
       [i..<Suc totalPages]"
proof (induction i totalPages currentPage urlParams rule: createPagination_links.induct)
  case (1 i totalPages currentPage urlParams)
  show ?case
  proof (cases "i \<le> totalPages")
    case True
    then have "[i..<Suc totalPages] = i # [Suc i..<Suc totalPages]"
      by (simp add: upt_conv_Cons)
    with True 1 show ?thesis
      by (subst createPagination_links.simps) simp
  next
    case False
    then show ?thesis
      by (subst createPagination_links.simps) simp
  qed
qed

lemma createPagination_videos_links_map:
  "createPagination_videos_links i totalPages currentPage location =
     map (\<lambda>k. \<lparr>a_href = location @ js ''&page='' @ nat_string k,
                 a_textContent = nat_string (k + 1),
                 a_classList =
                   (if strict_equals (Integer (int k)) currentPage
                    then [js ''page-btn'', js ''active''] else [js ''page-btn''])\<rparr>)
       [i..<Suc totalPages]"
proof (induction i totalPages currentPage location rule: createPagination_videos_links.induct)
  case (1 i totalPages currentPage location)
  show ?case
  proof (cases "i \<le> totalPages")
    case True
    then have "[i..<Suc totalPages] = i # [Suc i..<Suc totalPages]"
      by (simp add: upt_conv_Cons)
    with True 1 show ?thesis
      by (subst createPagination_videos_links.simps) simp
  next
    case False
    then show ?thesis
      by (subst createPagination_videos_links.simps) simp
  qed
qed

lemma URLSearchParams_set_get:
  "URLSearchParams_get (URLSearchParams_set ps name v) name = Some v"
  by (induction ps) (auto simp: URLSearchParams_get_def)

lemma URLSearchParams_set_others:
  "filter (\<lambda>kv. fst kv \<noteq> name) (URLSearchParams_set ps name v)
     = filter (\<lambda>kv. fst kv \<noteq> name) ps"
  by (induction ps) auto

lemma URLSearchParams_set_once:
  "length (filter (\<lambda>kv. fst kv = name) (URLSearchParams_set ps name v)) = 1"
  by (induction ps) (auto simp: filter_empty_conv)

lemma active_not_page_btn: "js ''active'' \<noteq> js ''page-btn''"
  by (simp add: js_def)

lemma results_pagination_links:
  assumes "i \<le> totalPages"
  shows "length (createPagination_links 0 totalPages (Integer (int k)) urlParams) = Suc totalPages
       \<and> a_href (createPagination_links 0 totalPages (Integer (int k)) urlParams ! i)
           = js ''?'' @ URLSearchParams_toString
                         (URLSearchParams_set urlParams (js ''page'') (nat_string i))
       \<and> (js ''active''
            \<in> set (a_classList (createPagination_links 0 totalPages (Integer (int k)) urlParams ! i)))
           = (i = k)"
proof -
  from assms have "i < length [0..<Suc totalPages]" and "[0..<Suc totalPages] ! i = i"
    by (simp_all del: upt_Suc)
  then show ?thesis
    unfolding createPagination_links_map
    by (simp add: strict_equals_def active_not_page_btn del: upt_Suc)
qed

lemma videos_pagination_links:
  assumes "i \<le> totalPages"
  shows "length (createPagination_videos_links 0 totalPages (Integer (int k)) location)
           = Suc totalPages
       \<and> a_href (createPagination_videos_links 0 totalPages (Integer (int k)) location ! i)
           = location @ js ''&page='' @ nat_string i
       \<and> (js ''active''
            \<in> set (a_classList
                      (createPagination_videos_links 0 totalPages (Integer (int k)) location ! i)))
           = (i = k)"
proof -
  from assms have "i < length [0..<Suc totalPages]" and "[0..<Suc totalPages] ! i = i"
    by (simp_all del: upt_Suc)
  then show ?thesis
    unfolding createPagination_videos_links_map
    by (simp add: strict_equals_def active_not_page_btn del: upt_Suc)
qed

text \<open>
  C5, in the videos script: on \<open>videos.html?q=cats&page=4\<close> the link of index 2 appends
  \<open>&page=2\<close> to the URL, which keeps \<open>page=4\<close> before it; the page that link loads
  reads \<open>page\<close> as 4 again.
\<close>

theorem videos_pagination_keeps_old_page:
  "a_href (createPagination_videos_links 0 9 (Integer 4)
             (js ''https://nilch.org/videos.html?q=cats&page=4'') ! 2)
     = js ''https://nilch.org/videos.html?q=cats&page=4&page=2''
   \<and> videos_js_parameters
       (URLSearchParams h (location_search (js ''https://nilch.org/videos.html?q=cats&page=4&page=2'')))
     = Inr \<lparr>safeSearch = js ''strict'', query = Some (js ''cats''), encodedQuery = js ''cats'',
            page = Integer 4\<rparr>"
proof -
  have a: "a_href (createPagination_videos_links 0 9 (Integer 4)
             (js ''https://nilch.org/videos.html?q=cats&page=4'') ! 2)
     = js ''https://nilch.org/videos.html?q=cats&page=4&page=2''"
    by (simp add: createPagination_videos_links_map nat_string_digit js_def del: upt_Suc)
  have s: "location_search (js ''https://nilch.org/videos.html?q=cats&page=4&page=2'')
            = js ''?q=cats&page=4&page=2''"
    by (simp add: location_search_def js_def)
  have u: "URLSearchParams h (js ''?q=cats&page=4&page=2'')
            = [(js ''q'', js ''cats''), (js ''page'', js ''4''), (js ''page'', js ''2'')]"
    by (simp add: URLSearchParams_def js_def form_decode_def utf8_encode_def utf8_octets_def
        is_leading_surrogate_def is_trailing_surrogate_def)
  have p: "videos_js_parameters [(js ''q'', js ''cats''), (js ''page'', js ''4''), (js ''page'', js ''2'')]
     = Inr \<lparr>safeSearch = js ''strict'', query = Some (js ''cats''), encodedQuery = js ''cats'',
            page = Integer 4\<rparr>"
    by (simp add: videos_js_parameters_def URLSearchParams_get_def or_default_def
      string_of_nullable_def js_def uri_unescaped_def is_ascii_letter_def then_append_def
      parseInt_def is_white_space_def is_line_terminator_def is_radix_digit_def digit_value_def
      is_digit_def digits_value_def number_of_integer_def)
  show ?thesis by (simp only: a s u p simp_thms)
qed

subsection \<open>The result list\<close>

lemma render_result_truncation:
  assumes "render_result h r = Inr resultDiv"
  shows "link_textContent resultDiv
           = (if length (web_result.title r) \<le> 60 then web_result.title r
              else take 60 (web_result.title r) @ js ''...'')
       \<and> snippetDiv_innerHTML resultDiv
           = (if length (body r) \<le> 300 then body r else take 300 (body r) @ js ''...'')"
  using assms by (auto simp: render_result_def Let_def split: option.splits)

lemma results_loop_children:
  "results_loop h rs st = (None, st') \<Longrightarrow>
     \<exists>ds. results_children st' = results_children st @ ds
        \<and> list_all2 (\<lambda>r resultDiv. render_result h r = Inr resultDiv) rs ds"
proof (induction rs arbitrary: st)
  case Nil
  then show ?case by simp
next
  case (Cons r rs)
  from Cons.prems obtain resultDiv where r: "render_result h r = Inr resultDiv"
    and l: "results_loop h rs (st\<lparr>results_children := results_children st @ [resultDiv]\<rparr>)
              = (None, st')"
    by (auto split: sum.splits)
  from Cons.IH [OF l] obtain ds where
    "results_children st' = (results_children st @ [resultDiv]) @ ds"
    and "list_all2 (\<lambda>r resultDiv. render_result h r = Inr resultDiv) rs ds"
    by auto
  with r show ?case by (intro exI [of _ "resultDiv # ds"]) simp
qed

lemma results_loop_completes:
  "list_all (\<lambda>r. URL_hostname h (href r) \<noteq> None) rs \<Longrightarrow> fst (results_loop h rs st) = None"
  by (induction rs arbitrary: st) (auto simp: render_result_def Let_def split: option.splits)

lemma json_parsed_not_sentinel:
  assumes "JSON_parse host_parse response = Inr v"
  shows "response \<noteq> js ''noquery'' \<and> response \<noteq> js ''noresults''"
  using assms noresults_not_json [of host_parse] noquery_not_json [of host_parse] by auto

lemma results_main_parsed:
  assumes "JSON_parse (parse_results h) response = Inr resultsData"
  shows "results_main h urlParams p response st
           = results_catch h (results_render h urlParams p resultsData st)"
  using assms json_parsed_not_sentinel [OF assms]
  by (simp add: results_main_def results_try_def results_sentinels_def)

lemma results_children_after_loop:
  "results_children (render_infobox i (createPagination n c ps st)) = results_children st"
  by (simp add: render_infobox_def createPagination_def Let_def)

lemma results_render_children:
  "\<exists>ds. results_children (results_catch h (results_render h urlParams p resultsData st)) = ds
     \<and> (ds = [] \<or> list_all2 (\<lambda>r resultDiv. render_result h r = Inr resultDiv) (results resultsData) ds)
     \<and> (list_all (\<lambda>r. URL_hostname h (href r) \<noteq> None) (results resultsData)
          \<longrightarrow> length ds = length (results resultsData))"
proof (cases "results resultsData = []")
  case True
  then show ?thesis
    by (simp add: results_render_def results_catch_def set_results_innerHTML_def Let_def)
next
  case False
  obtain e st2 where l: "results_loop h (results resultsData) (set_results_innerHTML [] st) = (e, st2)"
    by (cases "results_loop h (results resultsData) (set_results_innerHTML [] st)") auto
  show ?thesis
  proof (cases e)
    case None
    from results_loop_children [OF l [unfolded None]] obtain ds where
      ds: "results_children st2 = ds"
      "list_all2 (\<lambda>r resultDiv. render_result h r = Inr resultDiv) (results resultsData) ds"
      by (auto simp: set_results_innerHTML_def)
    then have "length ds = length (results resultsData)"
      by (simp add: list_all2_lengthD)
    with ds False l None show ?thesis
      by (simp add: results_render_def results_catch_def Let_def results_children_after_loop)
  next
    case (Some err)
    have "\<not> list_all (\<lambda>r. URL_hostname h (href r) \<noteq> None) (results resultsData)"
      using results_loop_completes [of h "results resultsData" "set_results_innerHTML [] st"] l Some
      by auto
    with False l Some show ?thesis
      by (simp add: results_render_def results_catch_def Let_def set_results_innerHTML_def)
  qed
qed

text \<open>
  C4: whatever the payload, every result the page shows has as its title the raw title when
  that has at most 60 code units and its first 60 followed by \<open>...\<close> otherwise, and as
  its snippet the raw body under the same rule with 300; and when every \<open>href\<close> is a URL
  that \<open>new URL\<close> accepts, every result of the payload is shown. (An \<open>href\<close> it rejects
  throws: the \<open>catch\<close> block then replaces the list by the error message.)
\<close>

theorem web_results_truncated:
  assumes "JSON_parse (parse_results h) response = Inr resultsData"
  shows "(\<forall>i < length (results_children (results_main h urlParams p response st)).
            link_textContent (results_children (results_main h urlParams p response st) ! i)
              = (if length (web_result.title (results resultsData ! i)) \<le> 60
                 then web_result.title (results resultsData ! i)
                 else take 60 (web_result.title (results resultsData ! i)) @ js ''...'')
            \<and> snippetDiv_innerHTML (results_children (results_main h urlParams p response st) ! i)
              = (if length (body (results resultsData ! i)) \<le> 300
                 then body (results resultsData ! i)
                 else take 300 (body (results resultsData ! i)) @ js ''...''))
       \<and> (list_all (\<lambda>r. URL_hostname h (href r) \<noteq> None) (results resultsData)
           \<longrightarrow> length (results_children (results_main h urlParams p response st))
                 = length (results resultsData))"
proof -
  let ?ds = "results_children (results_main h urlParams p response st)"
  from results_render_children [of h urlParams p resultsData st]
  have a: "?ds = [] \<or> list_all2 (\<lambda>r resultDiv. render_result h r = Inr resultDiv) (results resultsData) ?ds"
    and b: "list_all (\<lambda>r. URL_hostname h (href r) \<noteq> None) (results resultsData)
          \<longrightarrow> length ?ds = length (results resultsData)"
    by (simp_all add: results_main_parsed [OF assms])
  have "\<And>i. i < length ?ds \<Longrightarrow> render_result h (results resultsData ! i) = Inr (?ds ! i)"
    using a by (auto simp: list_all2_conv_all_nth)
  then show ?thesis
    using b render_result_truncation by blast
qed

text \<open>
  The boundaries of C4: titles of 60 and 61 code units, bodies of 301 and 300.
\<close>

theorem web_results_truncated_witness:
  "let payload = \<lparr>results =
         [\<lparr>web_result.title = replicate 60 0x61, href = js ''https://example.com/a'',
           body = replicate 301 0x62, page_age = None\<rparr>,
          \<lparr>web_result.title = replicate 61 0x61, href = js ''https://example.com/b'',
           body = replicate 300 0x62, page_age = None\<rparr>],
         infobox = Undefined\<rparr>;
       response = js ''{'' @ [0x22] @ js ''results'' @ [0x22] @ js '':[{'' @ [0x22] @ js ''title''
         @ [0x22] @ js '':'' @ [0x22] @ replicate 60 0x61 @ [0x22] @ js '','' @ [0x22] @ js ''href''
         @ [0x22] @ js '':'' @ [0x22] @ js ''https://example.com/a'' @ [0x22] @ js '','' @ [0x22]
         @ js ''body'' @ [0x22] @ js '':'' @ [0x22] @ replicate 301 0x62 @ [0x22] @ js ''},{''
         @ [0x22] @ js ''title'' @ [0x22] @ js '':'' @ [0x22] @ replicate 61 0x61 @ [0x22]
         @ js '','' @ [0x22] @ js ''href'' @ [0x22] @ js '':'' @ [0x22]
         @ js ''https://example.com/b'' @ [0x22] @ js '','' @ [0x22] @ js ''body'' @ [0x22]
         @ js '':'' @ [0x22] @ replicate 300 0x62 @ [0x22] @ js ''}]}'';
       h = \<lparr>parse_results = (\<lambda>text. if text = response then Some payload else None),
            parse_images = (\<lambda>text. None), parse_videos = (\<lambda>text. None),
            URL_hostname = (\<lambda>url. if prefix (js ''https://example.com/'') url
                                  then Some (js ''example.com'') else None),
            error_string = (\<lambda>e. js ''Error''), rounded_number_string = (\<lambda>n. js ''1e+21''),
            utf8_decode = (\<lambda>octets. [])\<rparr>;
       final = results_main h [(js ''q'', js ''cats'')]
         \<lparr>safeSearch = js ''strict'', query = Some (js ''cats''), encodedQuery = js ''cats'',
          page = Integer 0, failed = js ''false'', language = js ''en-GB'',
          engine = js ''duckduckgo''\<rparr>
         response
         \<lparr>location_href = js ''https://nilch.org/results.html?q=cats'', navigations = [],
          location_url = None, results_innerHTML = [], results_children = [],
          pagination_containers = [], infobox_display = js ''none'',
          infobox_title_innerHTML = [], infobox_children = []\<rparr>
   in length (results_children final) = 2
      \<and> link_textContent (results_children final ! 0) = replicate 60 0x61
      \<and> snippetDiv_innerHTML (results_children final ! 0) = replicate 300 0x62 @ js ''...''
      \<and> link_textContent (results_children final ! 1) = replicate 60 0x61 @ js ''...''
      \<and> snippetDiv_innerHTML (results_children final ! 1) = replicate 300 0x62"
proof -
  let ?payload = "\<lparr>results =
         [\<lparr>web_result.title = replicate 60 0x61, href = js ''https://example.com/a'',
           body = replicate 301 0x62, page_age = None\<rparr>,
          \<lparr>web_result.title = replicate 61 0x61, href = js ''https://example.com/b'',
           body = replicate 300 0x62, page_age = None\<rparr>],
         infobox = Undefined\<rparr>"
  let ?response = "js ''{'' @ [0x22] @ js ''results'' @ [0x22] @ js '':[{'' @ [0x22] @ js ''title''
         @ [0x22] @ js '':'' @ [0x22] @ replicate 60 0x61 @ [0x22] @ js '','' @ [0x22] @ js ''href''
         @ [0x22] @ js '':'' @ [0x22] @ js ''https://example.com/a'' @ [0x22] @ js '','' @ [0x22]
         @ js ''body'' @ [0x22] @ js '':'' @ [0x22] @ replicate 301 0x62 @ [0x22] @ js ''},{''
         @ [0x22] @ js ''title'' @ [0x22] @ js '':'' @ [0x22] @ replicate 61 0x61 @ [0x22]
         @ js '','' @ [0x22] @ js ''href'' @ [0x22] @ js '':'' @ [0x22]
         @ js ''https://example.com/b'' @ [0x22] @ js '','' @ [0x22] @ js ''body'' @ [0x22]
         @ js '':'' @ [0x22] @ replicate 300 0x62 @ [0x22] @ js ''}]}''"
  let ?h = "\<lparr>parse_results = (\<lambda>text. if text = ?response then Some ?payload else None),
            parse_images = (\<lambda>text. None), parse_videos = (\<lambda>text. None),
            URL_hostname = (\<lambda>url. if prefix (js ''https://example.com/'') url
                                  then Some (js ''example.com'') else None),
            error_string = (\<lambda>e. js ''Error''), rounded_number_string = (\<lambda>n. js ''1e+21''),
            utf8_decode = (\<lambda>octets. [])\<rparr>"
  let ?final = "results_main ?h [(js ''q'', js ''cats'')]
         \<lparr>safeSearch = js ''strict'', query = Some (js ''cats''), encodedQuery = js ''cats'',
          page = Integer 0, failed = js ''false'', language = js ''en-GB'',
          engine = js ''duckduckgo''\<rparr>
         ?response
         \<lparr>location_href = js ''https://nilch.org/results.html?q=cats'', navigations = [],
          location_url = None, results_innerHTML = [], results_children = [],
          pagination_containers = [], infobox_display = js ''none'',
          infobox_title_innerHTML = [], infobox_children = []\<rparr>"
  have s: "json_value_start ?response"
    by (simp add: json_value_start_def json_white_space_def js_def)
  have p: "JSON_parse (parse_results ?h) ?response = Inr ?payload"
    unfolding JSON_parse_def by (simp only: s if_True) simp
  have v: "list_all (\<lambda>r. URL_hostname ?h (href r) \<noteq> None) (results ?payload)"
    by (simp add: js_def)
  note T = web_results_truncated [OF p, of "[(js ''q'', js ''cats'')]"
      "\<lparr>safeSearch = js ''strict'', query = Some (js ''cats''), encodedQuery = js ''cats'',
          page = Integer 0, failed = js ''false'', language = js ''en-GB'',
          engine = js ''duckduckgo''\<rparr>"
      "\<lparr>location_href = js ''https://nilch.org/results.html?q=cats'', navigations = [],
          location_url = None, results_innerHTML = [], results_children = [],
          pagination_containers = [], infobox_display = js ''none'',
          infobox_title_innerHTML = [], infobox_children = []\<rparr>"]
  from T v have l: "length (results_children ?final) = 2" by simp
  have i0: "0 < length (results_children ?final)" and i1: "1 < length (results_children ?final)"
    using l by simp_all
  from T [THEN conjunct1, rule_format, OF i0] T [THEN conjunct1, rule_format, OF i1] l
  show ?thesis
    unfolding Let_def by simp
qed

subsection \<open>The infobox\<close>

lemma results_loop_infobox:
  "results_loop h rs st = (e, st') \<Longrightarrow>
     infobox_display st' = infobox_display st
     \<and> infobox_title_innerHTML st' = infobox_title_innerHTML st
     \<and> infobox_children st' = infobox_children st"
proof (induction rs arbitrary: st)
  case Nil
  then show ?case by simp
next
  case (Cons r rs)
  show ?case
  proof (cases "render_result h r")
    case (Inl err)
    with Cons.prems show ?thesis by simp
  next
    case (Inr resultDiv)
    with Cons.prems
    have "results_loop h rs (st\<lparr>results_children := results_children st @ [resultDiv]\<rparr>) = (e, st')"
      by simp
    from Cons.IH [OF this] show ?thesis by simp
  qed
qed

lemma render_infobox_falsy: "\<not> truthy i \<Longrightarrow> render_infobox i st = st"
  by (simp add: render_infobox_def)

lemma set_results_innerHTML_infobox:
  "infobox_display (set_results_innerHTML html st) = infobox_display st"
  "infobox_title_innerHTML (set_results_innerHTML html st) = infobox_title_innerHTML st"
  "infobox_children (set_results_innerHTML html st) = infobox_children st"
  by (simp_all add: set_results_innerHTML_def)

lemma results_render_without_infobox:
  assumes "\<not> truthy i"
  shows "infobox_display (results_catch h (results_render h urlParams p \<lparr>results = rs, infobox = i\<rparr> st))
           = infobox_display st
       \<and> infobox_title_innerHTML (results_catch h (results_render h urlParams p \<lparr>results = rs, infobox = i\<rparr> st))
           = infobox_title_innerHTML st
       \<and> infobox_children (results_catch h (results_render h urlParams p \<lparr>results = rs, infobox = i\<rparr> st))
           = infobox_children st"
proof -
  obtain e st2 where l: "results_loop h rs (set_results_innerHTML [] st) = (e, st2)"
    by (cases "results_loop h rs (set_results_innerHTML [] st)") auto
  have a: "render_infobox Null = (\<lambda>s. s)" and b: "render_infobox i = (\<lambda>s. s)"
    using assms by (auto simp: render_infobox_falsy truthy_def)
  note f = results_loop_infobox [OF l]
  show ?thesis
  proof (cases e)
    case None
    with f show ?thesis
      by (simp add: results_render_def results_catch_def Let_def l a b createPagination_def
          set_results_innerHTML_infobox)
  next
    case (Some err)
    with f show ?thesis
      by (simp add: results_render_def results_catch_def Let_def l a b
          set_results_innerHTML_infobox)
  qed
qed

text \<open>
  C6: a payload whose \<open>infobox\<close> is the string \<open>null\<close> leaves the page as the same
  payload without the field does; the infobox container keeps its display, its title and its
  children; and when the result list is empty the page shows the empty-state message.
\<close>

theorem infobox_null_string_is_absent:
  assumes "JSON_parse (parse_results h) response = Inr resultsData"
    and "infobox resultsData = Text (js ''null'')"
  shows "results_main h urlParams p response st
           = results_catch h (results_render h urlParams p (resultsData\<lparr>infobox := Undefined\<rparr>) st)
       \<and> infobox_display (results_main h urlParams p response st) = infobox_display st
       \<and> infobox_title_innerHTML (results_main h urlParams p response st) = infobox_title_innerHTML st
       \<and> infobox_children (results_main h urlParams p response st) = infobox_children st
       \<and> (results resultsData = [] \<longrightarrow>
            results_main h urlParams p response st
              = st\<lparr>results_innerHTML :=
                     js ''There weren't any results found! Maybe try switching to another engine?'',
                   results_children := []\<rparr>)"
proof -
  have m: "results_main h urlParams p response st
             = results_catch h (results_render h urlParams p resultsData st)"
    using assms(1) by (rule results_main_parsed)
  have r: "results_render h urlParams p resultsData st
             = results_render h urlParams p (resultsData\<lparr>infobox := Undefined\<rparr>) st"
  proof -
    obtain e st2 where
      l: "results_loop h (results resultsData) (set_results_innerHTML [] st) = (e, st2)"
      by (cases "results_loop h (results resultsData) (set_results_innerHTML [] st)") auto
    have "render_infobox Null = render_infobox Undefined"
      by (rule ext) (simp add: render_infobox_falsy truthy_def)
    then show ?thesis
      using assms(2)
      by (cases e) (simp_all add: results_render_def loose_equals_string_def Let_def l)
  qed
  have d: "resultsData\<lparr>infobox := Undefined\<rparr> = \<lparr>results = results resultsData, infobox = Undefined\<rparr>"
    by simp
  have u: "\<not> truthy Undefined" by (simp add: truthy_def)
  have e: "results resultsData = [] \<longrightarrow>
            results_catch h (results_render h urlParams p resultsData st)
              = st\<lparr>results_innerHTML :=
                     js ''There weren't any results found! Maybe try switching to another engine?'',
                   results_children := []\<rparr>"
    by (simp add: results_render_def results_catch_def set_results_innerHTML_def Let_def)
  show ?thesis
    using results_render_without_infobox [OF u, of h urlParams p "results resultsData" st] e
    unfolding m r d by simp
qed

text \<open>
  The scenario of C6: the payload \<open>{"results": [], "infobox": "null"}\<close>.
\<close>

theorem infobox_null_string_witness:
  "let response = js ''{'' @ [0x22] @ js ''results'' @ [0x22] @ js '': [], '' @ [0x22] @ js ''infobox''
         @ [0x22] @ js '': '' @ [0x22] @ js ''null'' @ [0x22] @ js ''}'';
       h = \<lparr>parse_results =
              (\<lambda>text. if text = response then Some \<lparr>results = [], infobox = Text (js ''null'')\<rparr>
                       else None),
            parse_images = (\<lambda>text. None), parse_videos = (\<lambda>text. None),
            URL_hostname = (\<lambda>url. None), error_string = (\<lambda>e. js ''Error''),
            rounded_number_string = (\<lambda>n. js ''1e+21''), utf8_decode = (\<lambda>octets. [])\<rparr>
   in results_main h [(js ''q'', js ''cats'')]
        \<lparr>safeSearch = js ''strict'', query = Some (js ''cats''), encodedQuery = js ''cats'',
         page = Integer 0, failed = js ''false'', language = js ''en-GB'',
         engine = js ''duckduckgo''\<rparr>
        response
        \<lparr>location_href = js ''https://nilch.org/results.html?q=cats'', navigations = [],
         location_url = None, results_innerHTML = js ''Loading'', results_children = [],
         pagination_containers = [], infobox_display = js ''none'',
         infobox_title_innerHTML = [], infobox_children = []\<rparr>
      = \<lparr>location_href = js ''https://nilch.org/results.html?q=cats'', navigations = [],
         location_url = None,
         results_innerHTML =
           js ''There weren't any results found! Maybe try switching to another engine?'',
         results_children = [], pagination_containers = [], infobox_display = js ''none'',
         infobox_title_innerHTML = [], infobox_children = []\<rparr>"
proof -
  let ?response = "js ''{'' @ [0x22] @ js ''results'' @ [0x22] @ js '': [], '' @ [0x22] @ js ''infobox''
         @ [0x22] @ js '': '' @ [0x22] @ js ''null'' @ [0x22] @ js ''}''"
  let ?h = "\<lparr>parse_results =
              (\<lambda>text. if text = ?response then Some \<lparr>results = [], infobox = Text (js ''null'')\<rparr>
                       else None),
            parse_images = (\<lambda>text. None), parse_videos = (\<lambda>text. None),
            URL_hostname = (\<lambda>url. None), error_string = (\<lambda>e. js ''Error''),
            rounded_number_string = (\<lambda>n. js ''1e+21''), utf8_decode = (\<lambda>octets. [])\<rparr>"
  have s: "json_value_start ?response"
    by (simp add: json_value_start_def json_white_space_def js_def)
  have p: "JSON_parse (parse_results ?h) ?response = Inr \<lparr>results = [], infobox = Text (js ''null'')\<rparr>"
    unfolding JSON_parse_def by (simp only: s if_True) simp
  have i: "infobox \<lparr>results = [], infobox = Text (js ''null'')\<rparr> = Text (js ''null'')" by simp
  note T = infobox_null_string_is_absent [OF p i, of "[(js ''q'', js ''cats'')]"
      "\<lparr>safeSearch = js ''strict'', query = Some (js ''cats''), encodedQuery = js ''cats'',
         page = Integer 0, failed = js ''false'', language = js ''en-GB'',
         engine = js ''duckduckgo''\<rparr>"
      "\<lparr>location_href = js ''https://nilch.org/results.html?q=cats'', navigations = [],
         location_url = None, results_innerHTML = js ''Loading'', results_children = [],
         pagination_containers = [], infobox_display = js ''none'',
         infobox_title_innerHTML = [], infobox_children = []\<rparr>"]
  from T [THEN conjunct2, THEN conjunct2, THEN conjunct2, THEN conjunct2] show ?thesis
    unfolding Let_def by simp
qed

subsection \<open>The video cards\<close>

lemma no_thumbnail_encoded:
  "then_append (js ''data:image/svg+xml;charset=UTF-8,'') (encodeURIComponent no_thumbnail_svg)
     = Inr no_thumbnail_data_uri"
  by code_simp

lemma render_video_without_images:
  "images v = None \<Longrightarrow> render_video v = Inl (ReadOfUndefined (js ''large''))"
  by (simp add: render_video_def)

lemma render_video_with_images:
  assumes "images v = Some imgs"
  shows "render_video v =
           Inr \<lparr>card_href = or_default (content v) (js ''#''),
                img_src = (case large imgs of
                             None \<Rightarrow> no_thumbnail_data_uri
                           | Some l \<Rightarrow> if l = [] then no_thumbnail_data_uri else l),
                title_textContent = or_default (video.title v) (js ''Untitled Video''),
                meta_textContent =
                  or_default (uploader v) (js ''Unknown Creator'') @ [0x20, 0x2022, 0x20]
                  @ or_default (publisher v) (js ''Unknown Platform'')\<rparr>"
  using assms by (simp add: render_video_def no_thumbnail_encoded split: option.splits)

lemma render_video_defined:
  "images v = Some imgs \<Longrightarrow> \<exists>vc. render_video v = Inr vc"
  by (simp add: render_video_with_images)

lemma videos_forEach_result:
  "videos_forEach vs st = (e, st') \<Longrightarrow>
     \<exists>cs. st' = st\<lparr>videoResults_children := videoResults_children st @ cs\<rparr>
        \<and> list_all2 (\<lambda>v vc. render_video v = Inr vc) (takeWhile (\<lambda>v. images v \<noteq> None) vs) cs
        \<and> e = (if list_all (\<lambda>v. images v \<noteq> None) vs then None
                else Some (ReadOfUndefined (js ''large'')))"
proof (induction vs arbitrary: st)
  case Nil
  then show ?case by simp
next
  case (Cons v vs)
  show ?case
  proof (cases "images v")
    case None
    with Cons.prems show ?thesis
      by (simp add: render_video_without_images)
  next
    case (Some imgs)
    from render_video_defined [OF Some] obtain vc where vc: "render_video v = Inr vc" by blast
    with Cons.prems have
      "videos_forEach vs (st\<lparr>videoResults_children := videoResults_children st @ [vc]\<rparr>) = (e, st')"
      by simp
    from Cons.IH [OF this] obtain cs where
      "st' = st\<lparr>videoResults_children := videoResults_children st @ vc # cs\<rparr>"
      and "list_all2 (\<lambda>v vc. render_video v = Inr vc) (takeWhile (\<lambda>v. images v \<noteq> None) vs) cs"
      and "e = (if list_all (\<lambda>v. images v \<noteq> None) vs then None
                else Some (ReadOfUndefined (js ''large'')))"
      by auto
    with Some vc show ?thesis
      by (intro exI [of _ "vc # cs"]) simp
  qed
qed

lemma videos_main_parsed:
  assumes "JSON_parse (parse_videos h) response = Inr resultsData"
  shows "\<exists>cs. list_all2 (\<lambda>v vc. render_video v = Inr vc)
               (takeWhile (\<lambda>v. images v \<noteq> None) resultsData) cs
     \<and> videos_main h p response st
         = (if list_all (\<lambda>v. images v \<noteq> None) resultsData then
              st\<lparr>videoResults_innerHTML := [], videoResults_children := cs,
                 pagination_containers := pagination_containers st
                   @ [createPagination_videos_links 0 9 (page p) (location_href st)]\<rparr>
            else
              st\<lparr>videoResults_innerHTML := [], videoResults_children := cs,
                 results_innerHTML :=
                   js ''<p>Error loading search results. Please try again.<br>''
                   @ error_string h (ReadOfUndefined (js ''large'')) @ js ''</p>'',
                 results_children := []\<rparr>)"
proof -
  let ?st1 = "st\<lparr>videoResults_innerHTML := [], videoResults_children := []\<rparr>"
  obtain e st2 where l: "videos_forEach resultsData ?st1 = (e, st2)"
    by (cases "videos_forEach resultsData ?st1") auto
  from videos_forEach_result [OF l] obtain cs where
    s: "st2 = ?st1\<lparr>videoResults_children := videoResults_children ?st1 @ cs\<rparr>"
    and c: "list_all2 (\<lambda>v vc. render_video v = Inr vc)
              (takeWhile (\<lambda>v. images v \<noteq> None) resultsData) cs"
    and e: "e = (if list_all (\<lambda>v. images v \<noteq> None) resultsData then None
                 else Some (ReadOfUndefined (js ''large'')))"
    by blast
  have m: "videos_main h p response st
     = (case e of None \<Rightarrow> createPagination_videos 9 (page p) st2
        | Some error \<Rightarrow>
            set_results_innerHTML
              (js ''<p>Error loading search results. Please try again.<br>''
               @ error_string h error @ js ''</p>'') st2)"
    using assms json_parsed_not_sentinel [OF assms] l
    by (cases e) (simp_all add: videos_main_def videos_try_def Let_def)
  show ?thesis
    using c
    by (intro exI [of _ cs])
      (simp add: m e s createPagination_videos_def set_results_innerHTML_def)
qed

text \<open>
  C10: the cards of the videos page are those of the items before the first one without
  \<open>images\<close>, each with its fallbacks: \<open>#\<close> for a missing \<open>content\<close>, \<open>Untitled Video\<close>,
  \<open>Unknown Creator\<close> and \<open>Unknown Platform\<close> for a missing title, uploader and
  publisher, the placeholder thumbnail for a missing \<open>images.large\<close>. When every item has
  \<open>images\<close> the pagination strip follows and \<open>results\<close> is left alone; when one has
  not, \<open>results\<close> holds the error message and no strip is made.
\<close>

theorem video_fallbacks_and_missing_images:
  assumes "JSON_parse (parse_videos h) response = Inr resultsData"
  shows "list_all2
           (\<lambda>v vc.
              card_href vc
                = (case content v of None \<Rightarrow> js ''#'' | Some x \<Rightarrow> if x = [] then js ''#'' else x)
              \<and> title_textContent vc
                = (case video.title v of None \<Rightarrow> js ''Untitled Video''
                   | Some x \<Rightarrow> if x = [] then js ''Untitled Video'' else x)
              \<and> meta_textContent vc
                = (case uploader v of None \<Rightarrow> js ''Unknown Creator''
                   | Some x \<Rightarrow> if x = [] then js ''Unknown Creator'' else x)
                  @ [0x20, 0x2022, 0x20]
                  @ (case publisher v of None \<Rightarrow> js ''Unknown Platform''
                     | Some x \<Rightarrow> if x = [] then js ''Unknown Platform'' else x)
              \<and> (case images v of
                   None \<Rightarrow> False
                 | Some imgs \<Rightarrow>
                     img_src vc
                       = (case large imgs of
                            None \<Rightarrow> no_thumbnail_data_uri
                          | Some l \<Rightarrow> if l = [] then no_thumbnail_data_uri else l)))
           (takeWhile (\<lambda>v. images v \<noteq> None) resultsData)
           (videoResults_children (videos_main h p response st))
       \<and> (list_all (\<lambda>v. images v \<noteq> None) resultsData \<longrightarrow>
            results_innerHTML (videos_main h p response st) = results_innerHTML st
            \<and> pagination_containers (videos_main h p response st)
                = pagination_containers st
                  @ [createPagination_videos_links 0 9 (page p) (location_href st)])
       \<and> (\<not> list_all (\<lambda>v. images v \<noteq> None) resultsData \<longrightarrow>
            results_innerHTML (videos_main h p response st)
              = js ''<p>Error loading search results. Please try again.<br>''
                @ error_string h (ReadOfUndefined (js ''large'')) @ js ''</p>''
            \<and> pagination_containers (videos_main h p response st) = pagination_containers st)"
proof -
  from videos_main_parsed [OF assms, of p st] obtain cs where
    c: "list_all2 (\<lambda>v vc. render_video v = Inr vc)
          (takeWhile (\<lambda>v. images v \<noteq> None) resultsData) cs"
    and m: "videos_main h p response st
         = (if list_all (\<lambda>v. images v \<noteq> None) resultsData then
              st\<lparr>videoResults_innerHTML := [], videoResults_children := cs,
                 pagination_containers := pagination_containers st
                   @ [createPagination_videos_links 0 9 (page p) (location_href st)]\<rparr>
            else
              st\<lparr>videoResults_innerHTML := [], videoResults_children := cs,
                 results_innerHTML :=
                   js ''<p>Error loading search results. Please try again.<br>''
                   @ error_string h (ReadOfUndefined (js ''large'')) @ js ''</p>'',
                 results_children := []\<rparr>)"
    by blast
  have k: "videoResults_children (videos_main h p response st) = cs"
    by (simp add: m)
  have "list_all2
           (\<lambda>v vc.
              card_href vc
                = (case content v of None \<Rightarrow> js ''#'' | Some x \<Rightarrow> if x = [] then js ''#'' else x)
              \<and> title_textContent vc
                = (case video.title v of None \<Rightarrow> js ''Untitled Video''
                   | Some x \<Rightarrow> if x = [] then js ''Untitled Video'' else x)
              \<and> meta_textContent vc
                = (case uploader v of None \<Rightarrow> js ''Unknown Creator''
                   | Some x \<Rightarrow> if x = [] then js ''Unknown Creator'' else x)
                  @ [0x20, 0x2022, 0x20]
                  @ (case publisher v of None \<Rightarrow> js ''Unknown Platform''
                     | Some x \<Rightarrow> if x = [] then js ''Unknown Platform'' else x)
              \<and> (case images v of
                   None \<Rightarrow> False
                 | Some imgs \<Rightarrow>
                     img_src vc
                       = (case large imgs of
                            None \<Rightarrow> no_thumbnail_data_uri
                          | Some l \<Rightarrow> if l = [] then no_thumbnail_data_uri else l)))
           (takeWhile (\<lambda>v. images v \<noteq> None) resultsData) cs"
  proof (rule list.rel_mono_strong [OF c])
    fix v vc
    assume v: "v \<in> set (takeWhile (\<lambda>v. images v \<noteq> None) resultsData)"
      and r: "render_video v = Inr vc"
    from v have "images v \<noteq> None" by (rule set_takeWhileD [THEN conjunct2])
    then obtain imgs where i: "images v = Some imgs" by auto
    from render_video_with_images [OF i] r
    have vc: "vc = \<lparr>card_href = or_default (content v) (js ''#''),
                img_src = (case large imgs of
                             None \<Rightarrow> no_thumbnail_data_uri
                           | Some l \<Rightarrow> if l = [] then no_thumbnail_data_uri else l),
                title_textContent = or_default (video.title v) (js ''Untitled Video''),
                meta_textContent =
                  or_default (uploader v) (js ''Unknown Creator'') @ [0x20, 0x2022, 0x20]
                  @ or_default (publisher v) (js ''Unknown Platform'')\<rparr>"
      by simp
    show "card_href vc
            = (case content v of None \<Rightarrow> js ''#'' | Some x \<Rightarrow> if x = [] then js ''#'' else x)
          \<and> title_textContent vc
            = (case video.title v of None \<Rightarrow> js ''Untitled Video''
               | Some x \<Rightarrow> if x = [] then js ''Untitled Video'' else x)
          \<and> meta_textContent vc
            = (case uploader v of None \<Rightarrow> js ''Unknown Creator''
               | Some x \<Rightarrow> if x = [] then js ''Unknown Creator'' else x)
              @ [0x20, 0x2022, 0x20]
              @ (case publisher v of None \<Rightarrow> js ''Unknown Platform''
                 | Some x \<Rightarrow> if x = [] then js ''Unknown Platform'' else x)
          \<and> (case images v of
               None \<Rightarrow> False
             | Some imgs \<Rightarrow>
                 img_src vc
                   = (case large imgs of
                        None \<Rightarrow> no_thumbnail_data_uri
                      | Some l \<Rightarrow> if l = [] then no_thumbnail_data_uri else l))"
      unfolding vc by (simp add: i or_default_def)
  qed
  then show ?thesis
    unfolding k by (simp add: m)
qed

text \<open>
  An instance of C10: three items, the first with every optional field missing, the second
  without \<open>images\<close>, the third complete.
\<close>

theorem video_fallbacks_witness:
  "let resultsData =
         [\<lparr>content = None, images = Some \<lparr>large = None\<rparr>, title = None, uploader = None,
           publisher = None\<rparr>,
          \<lparr>content = Some (js ''https://videos.example/2''), images = None,
           title = Some (js ''Second''), uploader = Some (js ''Ann''),
           publisher = Some (js ''Tube'')\<rparr>,
          \<lparr>content = Some (js ''https://videos.example/3''),
           images = Some \<lparr>large = Some (js ''https://videos.example/3.jpg'')\<rparr>,
           title = Some (js ''Third''), uploader = Some (js ''Bob''),
           publisher = Some (js ''Tube'')\<rparr>];
       response =
         js ''{'' @ [0x22] @ js ''results'' @ [0x22] @ js '':[{'' @ [0x22] @ js ''images''
         @ [0x22] @ js '':{}},{'' @ [0x22] @ js ''content'' @ [0x22] @ js '':'' @ [0x22]
         @ js ''https://videos.example/2'' @ [0x22] @ js '','' @ [0x22] @ js ''title''
         @ [0x22] @ js '':'' @ [0x22] @ js ''Second'' @ [0x22] @ js '','' @ [0x22]
         @ js ''uploader'' @ [0x22] @ js '':'' @ [0x22] @ js ''Ann'' @ [0x22] @ js '',''
         @ [0x22] @ js ''publisher'' @ [0x22] @ js '':'' @ [0x22] @ js ''Tube'' @ [0x22]
         @ js ''},{'' @ [0x22] @ js ''content'' @ [0x22] @ js '':'' @ [0x22]
         @ js ''https://videos.example/3'' @ [0x22] @ js '','' @ [0x22] @ js ''images''
         @ [0x22] @ js '':{'' @ [0x22] @ js ''large'' @ [0x22] @ js '':'' @ [0x22]
         @ js ''https://videos.example/3.jpg'' @ [0x22] @ js ''},'' @ [0x22] @ js ''title''
         @ [0x22] @ js '':'' @ [0x22] @ js ''Third'' @ [0x22] @ js '','' @ [0x22]
         @ js ''uploader'' @ [0x22] @ js '':'' @ [0x22] @ js ''Bob'' @ [0x22] @ js '',''
         @ [0x22] @ js ''publisher'' @ [0x22] @ js '':'' @ [0x22] @ js ''Tube'' @ [0x22]
         @ js ''}]}'';
       h = \<lparr>parse_results = (\<lambda>text. None), parse_images = (\<lambda>text. None),
            parse_videos = (\<lambda>text. if text = response then Some resultsData else None),
            URL_hostname = (\<lambda>url. None),
            error_string = (\<lambda>e. js ''TypeError: Cannot read properties of undefined''),
            rounded_number_string = (\<lambda>n. js ''1e+21''), utf8_decode = (\<lambda>octets. [])\<rparr>;
       final = videos_main h
         \<lparr>safeSearch = js ''strict'', query = Some (js ''cats''), encodedQuery = js ''cats'',
          page = Integer 0\<rparr>
         response
         \<lparr>location_href = js ''https://nilch.org/videos.html?q=cats'', navigations = [],
          location_url = None, results_innerHTML = [], results_children = ([] :: unit list),
          pagination_containers = [], videoResults_innerHTML = js ''Loading'',
          videoResults_children = []\<rparr>
   in length (videoResults_children final) = 1
      \<and> card_href (videoResults_children final ! 0) = js ''#''
      \<and> title_textContent (videoResults_children final ! 0) = js ''Untitled Video''
      \<and> meta_textContent (videoResults_children final ! 0)
          = js ''Unknown Creator'' @ [0x20, 0x2022, 0x20] @ js ''Unknown Platform''
      \<and> img_src (videoResults_children final ! 0) = no_thumbnail_data_uri
      \<and> results_innerHTML final
          = js ''<p>Error loading search results. Please try again.<br>TypeError: Cannot read properties of undefined</p>''
      \<and> pagination_containers final = []"
proof -
  let ?resultsData = "[\<lparr>content = None, images = Some \<lparr>large = None\<rparr>, title = None, uploader = None,
           publisher = None\<rparr>,
          \<lparr>content = Some (js ''https://videos.example/2''), images = None,
           title = Some (js ''Second''), uploader = Some (js ''Ann''),
           publisher = Some (js ''Tube'')\<rparr>,
          \<lparr>content = Some (js ''https://videos.example/3''),
           images = Some \<lparr>large = Some (js ''https://videos.example/3.jpg'')\<rparr>,
           title = Some (js ''Third''), uploader = Some (js ''Bob''),
           publisher = Some (js ''Tube'')\<rparr>]"
  let ?response = "js ''{'' @ [0x22] @ js ''results'' @ [0x22] @ js '':[{'' @ [0x22] @ js ''images''
         @ [0x22] @ js '':{}},{'' @ [0x22] @ js ''content'' @ [0x22] @ js '':'' @ [0x22]
         @ js ''https://videos.example/2'' @ [0x22] @ js '','' @ [0x22] @ js ''title''
         @ [0x22] @ js '':'' @ [0x22] @ js ''Second'' @ [0x22] @ js '','' @ [0x22]
         @ js ''uploader'' @ [0x22] @ js '':'' @ [0x22] @ js ''Ann'' @ [0x22] @ js '',''
         @ [0x22] @ js ''publisher'' @ [0x22] @ js '':'' @ [0x22] @ js ''Tube'' @ [0x22]
         @ js ''},{'' @ [0x22] @ js ''content'' @ [0x22] @ js '':'' @ [0x22]
         @ js ''https://videos.example/3'' @ [0x22] @ js '','' @ [0x22] @ js ''images''
         @ [0x22] @ js '':{'' @ [0x22] @ js ''large'' @ [0x22] @ js '':'' @ [0x22]
         @ js ''https://videos.example/3.jpg'' @ [0x22] @ js ''},'' @ [0x22] @ js ''title''
         @ [0x22] @ js '':'' @ [0x22] @ js ''Third'' @ [0x22] @ js '','' @ [0x22]
         @ js ''uploader'' @ [0x22] @ js '':'' @ [0x22] @ js ''Bob'' @ [0x22] @ js '',''
         @ [0x22] @ js ''publisher'' @ [0x22] @ js '':'' @ [0x22] @ js ''Tube'' @ [0x22]
         @ js ''}]}''"
  let ?h = "\<lparr>parse_results = (\<lambda>text. None), parse_images = (\<lambda>text. None),
            parse_videos = (\<lambda>text. if text = ?response then Some ?resultsData else None),
            URL_hostname = (\<lambda>url. None),
            error_string = (\<lambda>e. js ''TypeError: Cannot read properties of undefined''),
            rounded_number_string = (\<lambda>n. js ''1e+21''), utf8_decode = (\<lambda>octets. [])\<rparr>"
  let ?final = "videos_main ?h
         \<lparr>safeSearch = js ''strict'', query = Some (js ''cats''), encodedQuery = js ''cats'',
          page = Integer 0\<rparr>
         ?response
         \<lparr>location_href = js ''https://nilch.org/videos.html?q=cats'', navigations = [],
          location_url = None, results_innerHTML = [], results_children = ([] :: unit list),
          pagination_containers = [], videoResults_innerHTML = js ''Loading'',
          videoResults_children = []\<rparr>"
  have s: "json_value_start ?response"
    by (simp add: json_value_start_def json_white_space_def js_def)
  have p: "JSON_parse (parse_videos ?h) ?response = Inr ?resultsData"
    unfolding JSON_parse_def by (simp only: s if_True) simp
  have t: "takeWhile (\<lambda>v. images v \<noteq> None) ?resultsData = [hd ?resultsData]"
    by simp
  have n: "\<not> list_all (\<lambda>v. images v \<noteq> None) ?resultsData"
    by simp
  note T = video_fallbacks_and_missing_images [OF p, of
      "\<lparr>safeSearch = js ''strict'', query = Some (js ''cats''), encodedQuery = js ''cats'',
          page = Integer 0\<rparr>"
      "\<lparr>location_href = js ''https://nilch.org/videos.html?q=cats'', navigations = [],
          location_url = None, results_innerHTML = [], results_children = ([] :: unit list),
          pagination_containers = [], videoResults_innerHTML = js ''Loading'',
          videoResults_children = []\<rparr>"]
  from T [THEN conjunct1] obtain vc where
    c: "videoResults_children ?final = [vc]"
    and v: "card_href vc = js ''#''" "title_textContent vc = js ''Untitled Video''"
      "meta_textContent vc = js ''Unknown Creator'' @ [0x20, 0x2022, 0x20] @ js ''Unknown Platform''"
      "img_src vc = no_thumbnail_data_uri"
    unfolding t by (auto simp: list_all2_Cons1)
  from T [THEN conjunct2, THEN conjunct2] n
  have e: "results_innerHTML ?final
          = js ''<p>Error loading search results. Please try again.<br>''
            @ error_string ?h (ReadOfUndefined (js ''large'')) @ js ''</p>''"
    and g: "pagination_containers ?final = []"
    by simp_all
  have e': "results_innerHTML ?final
          = js ''<p>Error loading search results. Please try again.<br>TypeError: Cannot read properties of undefined</p>''"
    unfolding e by (simp add: js_def)
  show ?thesis
    unfolding Let_def using c v e' g by simp
qed

end
